theory Spec2Isabelle
  imports Complex_Main "HOL-Library.Log_Nat"
begin

section \<open>Basketball-AI backend: models, serializer validation and the task pipeline\<close>

text \<open>
  The development embeds the Django models (\<^verbatim>\<open>videos/models.py\<close>,
  \<^verbatim>\<open>players/models.py\<close>, \<^verbatim>\<open>actions/models.py\<close>,
  \<^verbatim>\<open>highlights/models.py\<close>, \<^verbatim>\<open>stats/models.py\<close>), the two
  \<^verbatim>\<open>validate\<close> methods of the serializers and the Celery tasks of
  \<^verbatim>\<open>core/tasks.py\<close>.

  Conventions. Python's unbounded \<^verbatim>\<open>int\<close> is \<^typ>\<open>int\<close>. A \<^verbatim>\<open>FloatField\<close>
  and every Python \<^verbatim>\<open>float\<close> is the \<^typ>\<open>real\<close> number it denotes. Comparisons
  of floats are exact in Python too. The subtraction in
  \<^verbatim>\<open>ActionCreateSerializer.validate\<close> is the subtraction of doubles, with its
  rounding; the arithmetic of the tasks is exact in the model. Primary keys are natural numbers. A nullable field is
  an \<^typ>\<open>'a option\<close>. Every exception the code can raise is a value of \<open>exn\<close>, and a
  function that can raise returns \<open>exn + 'a\<close> with \<open>Inl\<close> for the exception.
\<close>

subsection \<open>Exceptions and Python values\<close>

datatype exn =
    ValidationError string
  | KeyError string
  | ZeroDivisionError
  | ValueError string
  | DoesNotExist
  | IntegrityError string
  | Exception string

text \<open>\<^verbatim>\<open>str(e)\<close>, as the handlers of the tasks store it.\<close>

fun str_exn :: "exn \<Rightarrow> string" where
  "str_exn (ValidationError m) = m"
| "str_exn (KeyError k) = k"
| "str_exn ZeroDivisionError = ''division by zero''"
| "str_exn (ValueError m) = m"
| "str_exn DoesNotExist = ''matching query does not exist.''"
| "str_exn (IntegrityError m) = m"
| "str_exn (Exception m) = m"

definition bind_exn :: "exn + 'a \<Rightarrow> ('a \<Rightarrow> exn + 'b) \<Rightarrow> exn + 'b" where
  "bind_exn m f = (case m of Inl e \<Rightarrow> Inl e | Inr a \<Rightarrow> f a)"

text \<open>The values that occur in the dicts the tasks return.\<close>

datatype pyval = PyStr string | PyInt int | PyFloat real | PyId nat

subsection \<open>The models\<close>

text \<open>
  \<^verbatim>\<open>BaseModel\<close> (\<^verbatim>\<open>core/models.py\<close>) is not among the sources; of what it
  contributes only the primary key is read by the code embedded here, as field \<open>pk\<close>.
\<close>

record Video =
  pk :: nat
  user :: nat
  "file" :: string
  upload_date :: nat
  status :: string
  duration :: "real option"
  fps :: "real option"
  width :: "int option"
  height :: "int option"
  error_message :: "string option"
  processing_started_at :: "nat option"
  processing_completed_at :: "nat option"

record Player =
  pk :: nat
  video :: nat
  jersey_number :: "string option"
  team_color :: string
  player_id_model :: string
  detection_confidence :: real
  avg_bbox_area :: "real option"

record Action =
  pk :: nat
  video :: nat
  player :: "nat option"
  type :: string
  start_time :: real
  end_time :: real
  is_successful :: "bool option"
  x :: "real option"
  y :: "real option"
  model_type :: string
  confidence :: real
  segment_path :: "string option"
  metadata :: "(string \<times> int) list"

record Highlight =
  pk :: nat
  video :: nat
  player :: "nat option"
  title :: string
  description :: "string option"
  highlight_type :: string
  "file" :: string
  duration :: "real option"
  min_confidence :: real
  max_duration :: real
  is_processing :: bool
  processing_error :: "string option"
  view_count :: int
  download_count :: int

record Stats =
  pk :: nat
  video :: nat
  player :: nat
  fga_2pt :: int
  fgm_2pt :: int
  fga_3pt :: int
  fgm_3pt :: int
  fta :: int
  ftm :: int
  assists :: int
  rebounds :: int
  offensive_rebounds :: int
  defensive_rebounds :: int
  steals :: int
  blocks :: int
  turnovers :: int
  fouls :: int
  points :: int
  minutes_played :: real
  plus_minus :: int

subsection \<open>Serializer validation\<close>

text \<open>
  \<^verbatim>\<open>data.get(key, 0)\<close> on the validated data of \<^verbatim>\<open>StatsCreateUpdateSerializer\<close>.
  The six keys \<^verbatim>\<open>validate\<close> reads are \<^verbatim>\<open>IntegerField\<close>s, so a present value
  is an int; the dict is modelled by its integer-valued entries.
\<close>

definition dict_get :: "(string \<rightharpoonup> int) \<Rightarrow> string \<Rightarrow> int \<Rightarrow> int" where
  "dict_get data k dflt = (case data k of None \<Rightarrow> dflt | Some v \<Rightarrow> v)"

definition StatsCreateUpdateSerializer_validate ::
  "(string \<rightharpoonup> int) \<Rightarrow> exn + (string \<rightharpoonup> int)" where
  "StatsCreateUpdateSerializer_validate data =
     (if dict_get data ''fgm_2pt'' 0 > dict_get data ''fga_2pt'' 0
      then Inl (ValidationError ''2-point made cannot exceed attempts'')
      else if dict_get data ''fgm_3pt'' 0 > dict_get data ''fga_3pt'' 0
      then Inl (ValidationError ''3-point made cannot exceed attempts'')
      else if dict_get data ''ftm'' 0 > dict_get data ''fta'' 0
      then Inl (ValidationError ''Free throws made cannot exceed attempts'')
      else Inr data)"

text \<open>
  \<^verbatim>\<open>data[key]\<close> on the validated data of \<^verbatim>\<open>ActionCreateSerializer\<close>: a missing
  key raises \<^verbatim>\<open>KeyError\<close>. The two keys read are \<^verbatim>\<open>FloatField\<close>s; the dict is
  modelled by its float-valued entries.
\<close>

definition dict_item :: "(string \<rightharpoonup> real) \<Rightarrow> string \<Rightarrow> exn + real" where
  "dict_item data k = (case data k of None \<Rightarrow> Inl (KeyError k) | Some v \<Rightarrow> Inr v)"

text \<open>
  \<^verbatim>\<open>a - b\<close> on two Python floats. A float is an IEEE 754 double, and the
  difference is the double nearest to the exact difference, a tie going to the even
  significand. \<open>round_double\<close> rounds a real to 53 significant bits in this way:
  \<open>ilog2\<close> gives the exponent \<open>k\<close> with \<open>2 ^ k \<le> \<bar>v\<bar> < 2 ^ (k + 1)\<close>, and
  the value is rounded to a multiple of \<open>2 ^ (k - 52)\<close>. The exponent is not
  bounded here. For the difference of two doubles this changes nothing below: such a
  difference is a multiple of \<open>2 ^ - 1074\<close>, so it is a double itself when it is
  smaller than \<open>2 ^ - 1022\<close>; and where the double difference overflows to
  \<^verbatim>\<open>inf\<close> or \<^verbatim>\<open>-inf\<close> the value here is beyond \<open>2 ^ 1023\<close> with the same
  sign, which compares with 30 as the infinity does. \<open>is_double\<close> says that a real
  is a finite double.
\<close>

definition pow2 :: "int \<Rightarrow> real" where
  "pow2 k = (if 0 \<le> k then 2 ^ nat k else 1 / 2 ^ nat (- k))"

definition ilog2 :: "real \<Rightarrow> int" where
  "ilog2 v = (if 1 \<le> v then bitlen \<lfloor>v\<rfloor> - 1 else - bitlen (\<lceil>1 / v\<rceil> - 1))"

definition round_half_even :: "real \<Rightarrow> int" where
  "round_half_even v =
     (let n = \<lfloor>v\<rfloor>; d = v - of_int n
      in if d < 1 / 2 then n else if 1 / 2 < d then n + 1 else if even n then n else n + 1)"

definition round_double :: "real \<Rightarrow> real" where
  "round_double v =
     (if v = 0 then 0
      else let u = pow2 (ilog2 \<bar>v\<bar> - 52) in of_int (round_half_even (v / u)) * u)"

definition float_sub :: "real \<Rightarrow> real \<Rightarrow> real" where
  "float_sub a b = round_double (a - b)"

definition is_double :: "real \<Rightarrow> bool" where
  "is_double v =
     (round_double v = v \<and> \<bar>v\<bar> < 2 ^ 1024 \<and> of_int \<lfloor>v * 2 ^ 1074\<rfloor> = v * 2 ^ 1074)"

definition ActionCreateSerializer_validate ::
  "(string \<rightharpoonup> real) \<Rightarrow> exn + (string \<rightharpoonup> real)" where
  "ActionCreateSerializer_validate data =
     bind_exn (dict_item data ''start_time'') (\<lambda>s1.
     bind_exn (dict_item data ''end_time'') (\<lambda>e1.
       if s1 \<ge> e1 then Inl (ValidationError ''End time must be after start time'')
       else
     bind_exn (dict_item data ''end_time'') (\<lambda>e2.
     bind_exn (dict_item data ''start_time'') (\<lambda>s2.
       if float_sub e2 s2 > 30
       then Inl (ValidationError ''Action duration cannot exceed 30 seconds'')
       else Inr data))))"

text \<open>Whether a result is a raised \<^verbatim>\<open>ValidationError\<close>.\<close>

fun is_ValidationError :: "exn + 'a \<Rightarrow> bool" where
  "is_ValidationError (Inl (ValidationError m)) = True"
| "is_ValidationError r = False"

subsection \<open>Stats: shooting percentages and points\<close>

text \<open>Python's \<^verbatim>\<open>a / b\<close> on ints: true division, raising on a zero divisor.\<close>

definition py_truediv :: "int \<Rightarrow> int \<Rightarrow> exn + real" where
  "py_truediv a b = (if b = 0 then Inl ZeroDivisionError else Inr (real_of_int a / real_of_int b))"

text \<open>\<^verbatim>\<open>round(x, 1)\<close>: to one decimal, a tie going to the even neighbour.\<close>

definition py_round1 :: "real \<Rightarrow> real" where
  "py_round1 v =
     (let t = v * 10; f = \<lfloor>t\<rfloor>; d = t - of_int f
      in if d < 1 / 2 then of_int f / 10
         else if d > 1 / 2 then of_int (f + 1) / 10
         else if even f then of_int f / 10 else of_int (f + 1) / 10)"

text \<open>One guarded percentage: \<^verbatim>\<open>(made / att * 100) if att > 0 else 0\<close>.\<close>

definition pct_if_positive :: "int \<Rightarrow> int \<Rightarrow> exn + real" where
  "pct_if_positive made att =
     (if att > 0 then bind_exn (py_truediv made att) (\<lambda>q. Inr (q * 100)) else Inr 0)"

definition calculate_shooting_percentages :: "Stats \<Rightarrow> exn + (string \<times> real) list" where
  "calculate_shooting_percentages self =
     bind_exn (pct_if_positive (fgm_2pt self) (fga_2pt self)) (\<lambda>fg2_pct.
     bind_exn (pct_if_positive (fgm_3pt self) (fga_3pt self)) (\<lambda>fg3_pct.
     bind_exn (pct_if_positive (ftm self) (fta self)) (\<lambda>ft_pct.
       let total_fga = fga_2pt self + fga_3pt self;
           total_fgm = fgm_2pt self + fgm_3pt self
       in
     bind_exn (pct_if_positive total_fgm total_fga) (\<lambda>fg_pct.
       Inr [(''fg_pct'', py_round1 fg_pct),
            (''fg2_pct'', py_round1 fg2_pct),
            (''fg3_pct'', py_round1 fg3_pct),
            (''ft_pct'', py_round1 ft_pct)]))))"

text \<open>\<^verbatim>\<open>calculate_points\<close> updates the field and returns it.\<close>

definition calculate_points :: "Stats \<Rightarrow> int \<times> Stats" where
  "calculate_points self =
     (let self' = self\<lparr>points := (fgm_2pt self * 2) + (fgm_3pt self * 3) + ftm self\<rparr>
      in (points self', self'))"

subsection \<open>The database, the broker and the world outside\<close>

text \<open>A call \<^verbatim>\<open>task.delay(args)\<close> as it sits in the broker's queue.\<close>

datatype task_call =
    process_video_task_delay nat
  | detect_players_task_delay nat
  | analyze_ball_and_score_task_delay nat
  | detect_actions_with_mmaction_delay nat string real
  | calculate_stats_task_delay nat
  | auto_generate_highlights_task_delay nat
  | create_highlight_video_delay nat

text \<open>
  The state a task runs in: one list of rows per table, in insertion order, the join
  table of \<^verbatim>\<open>Highlight.actions\<close> as pairs (highlight, action), and the queue of
  the broker.
\<close>

record world =
  videos :: "Video list"
  players :: "Player list"
  actions :: "Action list"
  highlights :: "Highlight list"
  highlight_actions :: "(nat \<times> nat) list"
  stats :: "Stats list"
  queue :: "task_call list"

text \<open>One box of a YOLO result: \<^verbatim>\<open>box.cls\<close>, \<^verbatim>\<open>box.conf\<close>, \<^verbatim>\<open>box.xyxy[0]\<close>.\<close>

record box =
  cls :: real
  conf :: real
  xyxy :: "real \<times> real \<times> real \<times> real"

text \<open>
  What a task run meets outside the program. Every call that leaves the Python code of
  the task (the database, the broker, a library, the file system) can raise: \<open>faults\<close>
  maps the line of such a call in \<^verbatim>\<open>core/tasks.py\<close>, together with the indices of
  the loop iterations enclosing it (outermost first, counted from 0), to the
  message of the exception it raises there; a call that is not listed returns normally.
  The constraints the models declare (\<^verbatim>\<open>unique_together\<close>, a column that is
  \<^verbatim>\<open>NOT NULL\<close>) are not faults of this kind: the rows decide them, and the object
  manager below raises \<^verbatim>\<open>IntegrityError\<close> for them. The other fields are the values the libraries and the Django
  settings deliver: the clock, the frames of the video file as the list of results
  \<^verbatim>\<open>model(frame)\<close> yields for each frame (\<open>None\<close> for a result whose
  \<^verbatim>\<open>boxes\<close> is \<^verbatim>\<open>None\<close>), the duration of the clip, and for each segment the
  list of results of \<^verbatim>\<open>inference_recognizer\<close> (\<open>None\<close> for a result without
  \<^verbatim>\<open>pred_scores\<close>, else its scores and labels). \<open>VIDEO_SEGMENT_LENGTH\<close> is the
  value \<^verbatim>\<open>getattr(settings, 'VIDEO_SEGMENT_LENGTH', 3)\<close> evaluates to.
\<close>

record env =
  faults :: "((nat \<times> nat list) \<times> string) list"
  now :: nat
  strftime_now :: string
  MEDIA_ROOT :: string
  MMACTION2_CONFIG_PATH :: "string option"
  MMACTION2_CHECKPOINT_PATH :: "string option"
  VIDEO_SEGMENT_LENGTH :: int
  frames :: "box list option list list"
  clip_duration :: real
  inference :: "(real list \<times> int list) option list list"

subsection \<open>Running code that can raise\<close>

text \<open>
  A piece of task code takes the world and returns the world it leaves, with either its
  value or the exception it raised. Nothing is rolled back when an exception is raised.
\<close>

type_synonym 'a exec = "world \<Rightarrow> (exn + 'a) \<times> world"

definition return :: "'a \<Rightarrow> 'a exec" where
  "return a w = (Inr a, w)"

definition raise :: "exn \<Rightarrow> 'a exec" where
  "raise e w = (Inl e, w)"

definition bind_exec :: "'a exec \<Rightarrow> ('a \<Rightarrow> 'b exec) \<Rightarrow> 'b exec" where
  "bind_exec m f w = (case m w of (Inl e, w') \<Rightarrow> (Inl e, w') | (Inr a, w') \<Rightarrow> f a w')"

text \<open>\<^verbatim>\<open>try: m except Exception as e: h(e)\<close>\<close>

definition try_except :: "'a exec \<Rightarrow> (exn \<Rightarrow> 'a exec) \<Rightarrow> 'a exec" where
  "try_except m h w = (case m w of (Inl e, w') \<Rightarrow> h e w' | (Inr a, w') \<Rightarrow> (Inr a, w'))"

text \<open>The call at a line, inside the loop iterations \<open>idx\<close>: raises if the world says so.\<close>

definition call :: "env \<Rightarrow> nat \<Rightarrow> nat list \<Rightarrow> unit exec" where
  "call env line idx w =
     (case map_of (faults env) (line, idx) of
        Some m \<Rightarrow> (Inl (Exception m), w)
      | None \<Rightarrow> (Inr (), w))"

subsection \<open>Small Python functions\<close>

text \<open>\<^verbatim>\<open>str(n)\<close> for a non-negative int.\<close>

fun string_of_nat :: "nat \<Rightarrow> string" where
  "string_of_nat n =
     (if n < 10 then [char_of (48 + n)]
      else string_of_nat (n div 10) @ [char_of (48 + n mod 10)])"

text \<open>\<^verbatim>\<open>int(x)\<close> for a float: truncation towards zero.\<close>

definition py_int :: "real \<Rightarrow> int" where
  "py_int v = (if v \<ge> 0 then \<lfloor>v\<rfloor> else \<lceil>v\<rceil>)"

text \<open>\<^verbatim>\<open>range(start, stop, step)\<close>, as the list of its values.\<close>

definition py_range :: "int \<Rightarrow> int \<Rightarrow> int \<Rightarrow> exn + int list" where
  "py_range start stop step =
     (if step = 0 then Inl (ValueError ''range() arg 3 must not be zero'')
      else if step > 0
      then Inr (map (\<lambda>k. start + int k * step) [0..<nat ((stop - start + step - 1) div step)])
      else Inr (map (\<lambda>k. start + int k * step) [0..<nat ((start - stop - step - 1) div (- step))]))"

text \<open>\<^verbatim>\<open>np.mean\<close> of a non-empty list; of an empty one numpy returns nan, not modelled.\<close>

definition np_mean :: "real list \<Rightarrow> real" where
  "np_mean vs = sum_list vs / real (length vs)"

text \<open>\<^verbatim>\<open>np.argmax\<close>: the first index of the maximum; raises on an empty array.\<close>

fun argmax_from :: "real list \<Rightarrow> nat \<Rightarrow> nat \<Rightarrow> real \<Rightarrow> nat" where
  "argmax_from [] i best bv = best"
| "argmax_from (v # vs) i best bv =
     (if v > bv then argmax_from vs (Suc i) i v else argmax_from vs (Suc i) best bv)"

definition np_argmax :: "real list \<Rightarrow> exn + nat" where
  "np_argmax vs =
     (case vs of
        [] \<Rightarrow> Inl (ValueError ''attempt to get argmax of an empty sequence'')
      | v # vs' \<Rightarrow> Inr (argmax_from vs' 1 0 v))"

text \<open>\<^verbatim>\<open>xs[i]\<close> for \<open>i \<ge> 0\<close>: raises \<^verbatim>\<open>IndexError\<close> out of range.\<close>

definition py_index :: "'a list \<Rightarrow> nat \<Rightarrow> exn + 'a" where
  "py_index vs i = (if i < length vs then Inr (vs ! i) else Inl (Exception ''index out of range''))"

subsection \<open>The object manager\<close>

text \<open>A primary key no row of the table has.\<close>

definition fresh_pk :: "nat list \<Rightarrow> nat" where
  "fresh_pk ks = Suc (fold max ks 0)"

text \<open>
  \<^verbatim>\<open>Model.save()\<close> without \<^verbatim>\<open>update_fields\<close>: the row with this primary key is
  replaced by the object, or the object is inserted when there is none.
\<close>

definition upsert :: "('a \<Rightarrow> nat) \<Rightarrow> 'a \<Rightarrow> 'a list \<Rightarrow> 'a list" where
  "upsert key r rows =
     (if list_ex (\<lambda>r'. key r' = key r) rows
      then map (\<lambda>r'. if key r' = key r then r else r') rows
      else rows @ [r])"

definition Video_objects_get :: "env \<Rightarrow> nat \<Rightarrow> nat list \<Rightarrow> nat \<Rightarrow> Video exec" where
  "Video_objects_get env line idx video_id =
     bind_exec (call env line idx) (\<lambda>_ w.
       case find (\<lambda>v. Video.pk v = video_id) (videos w) of
         None \<Rightarrow> (Inl DoesNotExist, w)
       | Some v \<Rightarrow> (Inr v, w))"

definition Video_save :: "env \<Rightarrow> nat \<Rightarrow> nat list \<Rightarrow> Video \<Rightarrow> unit exec" where
  "Video_save env line idx self =
     bind_exec (call env line idx) (\<lambda>_ w.
       (Inr (), w\<lparr>videos := upsert Video.pk self (videos w)\<rparr>))"

definition Highlight_objects_get :: "env \<Rightarrow> nat \<Rightarrow> nat list \<Rightarrow> nat \<Rightarrow> Highlight exec" where
  "Highlight_objects_get env line idx highlight_id =
     bind_exec (call env line idx) (\<lambda>_ w.
       case find (\<lambda>h. Highlight.pk h = highlight_id) (highlights w) of
         None \<Rightarrow> (Inl DoesNotExist, w)
       | Some h \<Rightarrow> (Inr h, w))"

definition Highlight_save :: "env \<Rightarrow> nat \<Rightarrow> nat list \<Rightarrow> Highlight \<Rightarrow> unit exec" where
  "Highlight_save env line idx self =
     bind_exec (call env line idx) (\<lambda>_ w.
       (Inr (), w\<lparr>highlights := upsert Highlight.pk self (highlights w)\<rparr>))"

text \<open>
  \<^verbatim>\<open>Stats.save\<close>: points and rebounds are recomputed on the object, then
  \<^verbatim>\<open>super().save\<close> writes the row. The object, as changed, is returned with the
  outcome.
\<close>

definition Stats_save :: "env \<Rightarrow> nat \<Rightarrow> nat list \<Rightarrow> Stats \<Rightarrow> Stats exec" where
  "Stats_save env line idx self =
     (let self1 = snd (calculate_points self);
          self2 = self1\<lparr>rebounds := offensive_rebounds self1 + defensive_rebounds self1\<rparr>
      in bind_exec (call env line idx) (\<lambda>_ w.
           (Inr self2, w\<lparr>stats := upsert Stats.pk self2 (stats w)\<rparr>)))"

text \<open>\<^verbatim>\<open>task.delay(args)\<close>: the call is appended to the queue of the broker.\<close>

definition delay :: "env \<Rightarrow> nat \<Rightarrow> nat list \<Rightarrow> task_call \<Rightarrow> unit exec" where
  "delay env line idx c =
     bind_exec (call env line idx) (\<lambda>_ w. (Inr (), w\<lparr>queue := queue w @ [c]\<rparr>))"

text \<open>\<^verbatim>\<open>video.file.path\<close>: raises \<^verbatim>\<open>ValueError\<close> when the field holds no file.\<close>

definition file_path :: "Video \<Rightarrow> string exec" where
  "file_path self =
     (if Video.file self = [] then
        raise (ValueError ''The file attribute has no file associated with it.'')
      else return (Video.file self))"

text \<open>The dict a task returns.\<close>

type_synonym result = "(string \<times> pyval) list"

definition error_result :: "string \<Rightarrow> result" where
  "error_result m = [(''status'', PyStr ''error''), (''message'', PyStr m)]"

definition lift :: "exn + 'a \<Rightarrow> 'a exec" where
  "lift r w = (r, w)"

text \<open>
  \<^verbatim>\<open>for x in xs: s = body(i, x, s)\<close>, where \<open>i\<close> counts the iterations; an
  exception raised by the body leaves the loop.
\<close>

primrec for_loop :: "'a list \<Rightarrow> nat \<Rightarrow> (nat \<Rightarrow> 'a \<Rightarrow> 's \<Rightarrow> 's exec) \<Rightarrow> 's \<Rightarrow> 's exec" where
  "for_loop [] i body s = return s"
| "for_loop (v # vs) i body s = bind_exec (body i v s) (for_loop vs (Suc i) body)"

text \<open>
  The same loop inside a \<^verbatim>\<open>try\<close> whose handler goes on with the local variables
  as the loop left them: the exception, if any, comes with the value of \<open>s\<close> at the
  start of the iteration that raised.
\<close>

primrec for_loop_try ::
  "'a list \<Rightarrow> nat \<Rightarrow> (nat \<Rightarrow> 'a \<Rightarrow> 's \<Rightarrow> 's exec) \<Rightarrow> 's \<Rightarrow> world \<Rightarrow> (exn option \<times> 's) \<times> world" where
  "for_loop_try [] i body s w = ((None, s), w)"
| "for_loop_try (v # vs) i body s w =
     (case body i v s w of
        (Inl e, w') \<Rightarrow> ((Some e, s), w')
      | (Inr s', w') \<Rightarrow> for_loop_try vs (Suc i) body s' w')"

subsection \<open>\<^verbatim>\<open>process_video_task\<close>\<close>

definition process_video_task_body :: "env \<Rightarrow> nat \<Rightarrow> result exec" where
  "process_video_task_body env video_id =
     bind_exec (Video_objects_get env 35 [] video_id) (\<lambda>video.
     bind_exec (Video_save env 38 []
        (video\<lparr>Video.status := ''processing'', processing_started_at := Some (now env)\<rparr>)) (\<lambda>_.
     bind_exec (delay env 43 [] (detect_players_task_delay (Video.pk video))) (\<lambda>_.
     return [(''status'', PyStr ''started''), (''video_id'', PyId (Video.pk video))])))"

text \<open>
  The handler the tasks up to \<^verbatim>\<open>calculate_stats_task\<close> share, up to the lines of
  its two database calls and the prefix of the message it stores.
\<close>

definition video_failed :: "env \<Rightarrow> nat \<Rightarrow> nat \<Rightarrow> string \<Rightarrow> nat \<Rightarrow> exn \<Rightarrow> result exec" where
  "video_failed env get_line save_line prefix video_id e =
     bind_exec (Video_objects_get env get_line [] video_id) (\<lambda>video.
     bind_exec (Video_save env save_line []
        (video\<lparr>Video.status := ''error'', error_message := Some (prefix @ str_exn e)\<rparr>)) (\<lambda>_.
     return (error_result (str_exn e))))"

definition process_video_task :: "env \<Rightarrow> nat \<Rightarrow> result exec" where
  "process_video_task env video_id =
     try_except (process_video_task_body env video_id) (\<lambda>e.
       case e of
         DoesNotExist \<Rightarrow> return (error_result ''Video not found'')
       | _ \<Rightarrow> video_failed env 54 57 [] video_id e)"

subsection \<open>\<^verbatim>\<open>detect_players_task\<close>\<close>

record track =
  bbox_history :: "(real \<times> real \<times> real \<times> real) list"
  confidence_history :: "real list"
  frame_indices :: "nat list"

text \<open>Lines 99 to 112: every confident person box opens a track of its own.\<close>

fun boxes_loop :: "nat \<Rightarrow> box list \<Rightarrow> track list \<Rightarrow> track list" where
  "boxes_loop frame_idx [] player_tracks = player_tracks"
| "boxes_loop frame_idx (b # bs) player_tracks =
     boxes_loop frame_idx bs
       (if py_int (cls b) = 0 \<and> conf b > 0.5
        then player_tracks @
          [\<lparr>bbox_history = [xyxy b], confidence_history = [conf b], frame_indices = [frame_idx]\<rparr>]
        else player_tracks)"

fun results_loop :: "nat \<Rightarrow> box list option list \<Rightarrow> track list \<Rightarrow> track list" where
  "results_loop frame_idx [] player_tracks = player_tracks"
| "results_loop frame_idx (r # rs) player_tracks =
     results_loop frame_idx rs
       (case r of None \<Rightarrow> player_tracks | Some boxes \<Rightarrow> boxes_loop frame_idx boxes player_tracks)"

definition frame_step :: "env \<Rightarrow> nat \<Rightarrow> box list option list \<Rightarrow> track list \<Rightarrow> track list exec" where
  "frame_step env frame_idx results player_tracks =
     bind_exec (call env 87 [frame_idx]) (\<lambda>_.
       if frame_idx mod 30 = 0
       then bind_exec (call env 93 [frame_idx]) (\<lambda>_.
              return (results_loop frame_idx results player_tracks))
       else return player_tracks)"

definition bbox_area :: "real \<times> real \<times> real \<times> real \<Rightarrow> real" where
  "bbox_area b = (case b of (x1, y1, x2, y2) \<Rightarrow> (x2 - x1) * (y2 - y1))"

text \<open>
  \<^verbatim>\<open>Player.objects.create\<close>. The model declares
  \<^verbatim>\<open>unique_together = ['video', 'player_id_model']\<close>: the insert of a second row
  with the same pair raises \<^verbatim>\<open>IntegrityError\<close> (the text of the message is the
  database's).
\<close>

definition Player_objects_create :: "env \<Rightarrow> nat \<Rightarrow> nat list \<Rightarrow> Player \<Rightarrow> Player exec" where
  "Player_objects_create env line idx p =
     bind_exec (call env line idx) (\<lambda>_ w.
       if list_ex (\<lambda>r. Player.video r = Player.video p
                        \<and> player_id_model r = player_id_model p) (players w)
       then (Inl (IntegrityError ''UNIQUE constraint failed: players_player.video_id, players_player.player_id_model''), w)
       else
       let p' = p\<lparr>Player.pk := fresh_pk (map Player.pk (players w))\<rparr>
       in (Inr p', w\<lparr>players := players w @ [p']\<rparr>))"

definition track_step :: "env \<Rightarrow> Video \<Rightarrow> nat \<Rightarrow> track \<Rightarrow> unit \<Rightarrow> unit exec" where
  "track_step env video0 track_id track_data u =
     (if length (frame_indices track_data) > 10 then
        let avg_confidence = np_mean (confidence_history track_data);
            avg_area = np_mean (map bbox_area (bbox_history track_data));
            color = (if track_id mod 2 = 0 then ''red'' else ''blue'')
        in bind_exec (Player_objects_create env 129 [track_id]
             \<lparr>Player.pk = 0, video = Video.pk video0,
              jersey_number = Some (string_of_nat (track_id + 1)),
              team_color = color,
              player_id_model = ''track_'' @ string_of_nat track_id,
              detection_confidence = avg_confidence,
              avg_bbox_area = Some avg_area\<rparr>) (\<lambda>_. return ())
      else return ())"

definition detect_players_task_body :: "env \<Rightarrow> nat \<Rightarrow> result exec" where
  "detect_players_task_body env video_id =
     bind_exec (Video_objects_get env 67 [] video_id) (\<lambda>video.
     bind_exec (file_path video) (\<lambda>video_path.
     bind_exec (call env 74 []) (\<lambda>_.
     bind_exec (call env 77 []) (\<lambda>_.
     bind_exec (for_loop (frames env) 0 (frame_step env) []) (\<lambda>player_tracks.
     bind_exec (call env 116 []) (\<lambda>_.
     bind_exec (for_loop player_tracks 0 (track_step env video) ()) (\<lambda>_.
     bind_exec (Video_save env 140 [] (video\<lparr>Video.status := ''players_detected''\<rparr>)) (\<lambda>_.
     bind_exec (delay env 145 [] (analyze_ball_and_score_task_delay (Video.pk video))) (\<lambda>_.
     return [(''status'', PyStr ''completed''),
             (''players_detected'', PyInt (int (length player_tracks)))])))))))))"

definition detect_players_task :: "env \<Rightarrow> nat \<Rightarrow> result exec" where
  "detect_players_task env video_id =
     try_except (detect_players_task_body env video_id)
       (video_failed env 151 154 ''Player detection failed: '' video_id)"

subsection \<open>\<^verbatim>\<open>analyze_ball_and_score_task\<close>\<close>

definition analyze_ball_and_score_task_body :: "env \<Rightarrow> nat \<Rightarrow> result exec" where
  "analyze_ball_and_score_task_body env video_id =
     bind_exec (Video_objects_get env 164 [] video_id) (\<lambda>video.
     bind_exec (Video_save env 176 [] (video\<lparr>Video.status := ''ball_analyzed''\<rparr>)) (\<lambda>_.
     bind_exec (delay env 179 []
        (detect_actions_with_mmaction_delay (Video.pk video) ''mmaction2_tsn'' 0.5)) (\<lambda>_.
     return [(''status'', PyStr ''completed'')])))"

definition analyze_ball_and_score_task :: "env \<Rightarrow> nat \<Rightarrow> result exec" where
  "analyze_ball_and_score_task env video_id =
     try_except (analyze_ball_and_score_task_body env video_id)
       (video_failed env 185 188 ''Ball analysis failed: '' video_id)"

subsection \<open>\<^verbatim>\<open>detect_actions_with_mmaction\<close>\<close>

definition map_mmaction_label_to_action_type :: "int \<Rightarrow> string option" where
  "map_mmaction_label_to_action_type label_idx =
     map_of [(0, ''shot_2pt''), (1, ''pass''), (2, ''dribble''), (3, ''run''), (4, ''jump''),
             (5, ''shot_3pt'')] label_idx"

text \<open>Python's truth value of an optional string: \<^verbatim>\<open>None\<close> and \<^verbatim>\<open>''\<close> are false.\<close>

definition truthy_str :: "string option \<Rightarrow> bool" where
  "truthy_str v = (case v of None \<Rightarrow> False | Some s \<Rightarrow> s \<noteq> [])"

definition Action_objects_create :: "env \<Rightarrow> nat \<Rightarrow> nat list \<Rightarrow> Action \<Rightarrow> Action exec" where
  "Action_objects_create env line idx a =
     bind_exec (call env line idx) (\<lambda>_ w.
       let a' = a\<lparr>Action.pk := fresh_pk (map Action.pk (actions w))\<rparr>
       in (Inr a', w\<lparr>actions := actions w @ [a']\<rparr>))"

text \<open>
  \<^verbatim>\<open>players.first() if players.exists() else None\<close> on
  \<^verbatim>\<open>Player.objects.filter(video=video)\<close>: an unordered queryset, so \<^verbatim>\<open>first\<close>
  orders by primary key.
\<close>

definition first_player :: "env \<Rightarrow> nat \<Rightarrow> nat list \<Rightarrow> nat \<Rightarrow> nat option exec" where
  "first_player env line idx video_id =
     bind_exec (call env line idx) (\<lambda>_ w.
       (Inr (case sort_key Player.pk (filter (\<lambda>p. Player.video p = video_id) (players w)) of
               [] \<Rightarrow> None
             | p # _ \<Rightarrow> Some (Player.pk p)), w))"

text \<open>Lines 234 to 263, one result of the recognizer.\<close>

definition result_step ::
  "env \<Rightarrow> Video \<Rightarrow> string \<Rightarrow> real \<Rightarrow> nat \<Rightarrow> int \<Rightarrow> real \<Rightarrow>
   nat \<Rightarrow> (real list \<times> int list) option \<Rightarrow> nat \<Rightarrow> nat exec" where
  "result_step env video0 model_type0 confidence_threshold i start_time0 end_time0 j res
     actions_created =
     (case res of
        None \<Rightarrow> return actions_created
      | Some (scores, labels) \<Rightarrow>
          bind_exec (call env 237 [i, j]) (\<lambda>_.
          bind_exec (lift (np_argmax scores)) (\<lambda>top_idx.
          bind_exec (lift (py_index scores top_idx)) (\<lambda>confidence0.
          bind_exec (lift (py_index labels top_idx)) (\<lambda>label_idx.
            if confidence0 > confidence_threshold then
              (case map_mmaction_label_to_action_type label_idx of
                 None \<Rightarrow> return actions_created
               | Some action_type \<Rightarrow>
               if action_type \<noteq> [] then
                 bind_exec (first_player env 250 [i, j] (Video.pk video0)) (\<lambda>player0.
                 bind_exec (Action_objects_create env 253 [i, j]
                    \<lparr>Action.pk = 0, video = Video.pk video0, player = player0,
                     type = action_type,
                     start_time = real_of_int start_time0, end_time = end_time0,
                     is_successful = None, x = None, y = None,
                     model_type = model_type0, confidence = confidence0,
                     segment_path = None,
                     metadata = [(''mmaction_label'', label_idx)]\<rparr>) (\<lambda>_.
                 return (actions_created + 1)))
               else return actions_created)
            else return actions_created)))))"

text \<open>\<^verbatim>\<open>xs[i]\<close> on the results the world delivers; no results when it delivers none.\<close>

definition segment_results :: "env \<Rightarrow> nat \<Rightarrow> (real list \<times> int list) option list" where
  "segment_results env i = (if i < length (inference env) then inference env ! i else [])"

text \<open>
  Lines 221 to 270, one segment. The inner \<^verbatim>\<open>try\<close> swallows every exception of the
  inference, of the results loop and of \<^verbatim>\<open>os.remove\<close>, and the loop goes on with
  the count as it stands.
\<close>

definition segment_step ::
  "env \<Rightarrow> Video \<Rightarrow> string \<Rightarrow> real \<Rightarrow> int \<Rightarrow> real \<Rightarrow> nat \<Rightarrow> int \<Rightarrow> nat \<Rightarrow> nat exec" where
  "segment_step env video0 model_type0 confidence_threshold segment_length duration0 i
     start_time0 actions_created =
     (let end_time0 = min (real_of_int (start_time0 + segment_length)) duration0 in
      bind_exec (call env 225 [i]) (\<lambda>_.
      bind_exec (call env 227 [i]) (\<lambda>_ w.
        case call env 231 [i] w of
          (Inl e, w1) \<Rightarrow> (Inr actions_created, w1)
        | (Inr _, w1) \<Rightarrow>
            (case for_loop_try (segment_results env i) 0
                    (result_step env video0 model_type0 confidence_threshold i start_time0 end_time0)
                    actions_created w1 of
               ((Some e, n), w2) \<Rightarrow> (Inr n, w2)
             | ((None, n), w2) \<Rightarrow>
                 (case call env 266 [i] w2 of
                    (Inl e, w3) \<Rightarrow> (Inr n, w3)
                  | (Inr _, w3) \<Rightarrow> (Inr n, w3))))))"

definition detect_actions_with_mmaction_body ::
  "env \<Rightarrow> nat \<Rightarrow> string \<Rightarrow> real \<Rightarrow> result exec" where
  "detect_actions_with_mmaction_body env video_id model_type0 confidence_threshold =
     bind_exec (Video_objects_get env 198 [] video_id) (\<lambda>video.
     bind_exec (file_path video) (\<lambda>video_path.
     bind_exec (if \<not> truthy_str (MMACTION2_CONFIG_PATH env)
                   \<or> \<not> truthy_str (MMACTION2_CHECKPOINT_PATH env)
                then raise (Exception ''MMAction2 model paths not configured'')
                else return ()) (\<lambda>_.
     bind_exec (call env 211 []) (\<lambda>_.
     bind_exec (call env 215 []) (\<lambda>_.
     bind_exec (lift (py_range 0 (py_int (clip_duration env)) (VIDEO_SEGMENT_LENGTH env)))
       (\<lambda>starts.
     bind_exec (for_loop starts 0
        (segment_step env video model_type0 confidence_threshold (VIDEO_SEGMENT_LENGTH env)
           (clip_duration env)) 0) (\<lambda>actions_created.
     bind_exec (call env 272 []) (\<lambda>_.
     bind_exec (Video_save env 276 [] (video\<lparr>Video.status := ''actions_done''\<rparr>)) (\<lambda>_.
     bind_exec (delay env 281 [] (calculate_stats_task_delay (Video.pk video))) (\<lambda>_.
     return [(''status'', PyStr ''completed''),
             (''actions_created'', PyInt (int actions_created))]))))))))))"

definition detect_actions_with_mmaction :: "env \<Rightarrow> nat \<Rightarrow> string \<Rightarrow> real \<Rightarrow> result exec" where
  "detect_actions_with_mmaction env video_id model_type0 confidence_threshold =
     try_except (detect_actions_with_mmaction_body env video_id model_type0 confidence_threshold)
       (video_failed env 287 290 ''Action detection failed: '' video_id)"

subsection \<open>\<^verbatim>\<open>calculate_stats_task\<close>\<close>

text \<open>Lines 317 to 343, one action.\<close>

definition count_action :: "Action \<Rightarrow> Stats \<Rightarrow> Stats" where
  "count_action action0 s =
     (if type action0 = ''shot_2pt'' then
        (let s1 = s\<lparr>fga_2pt := fga_2pt s + 1\<rparr>
         in if is_successful action0 = Some True then s1\<lparr>fgm_2pt := fgm_2pt s1 + 1\<rparr> else s1)
      else if type action0 = ''shot_3pt'' then
        (let s1 = s\<lparr>fga_3pt := fga_3pt s + 1\<rparr>
         in if is_successful action0 = Some True then s1\<lparr>fgm_3pt := fgm_3pt s1 + 1\<rparr> else s1)
      else if type action0 = ''free_throw'' then
        (let s1 = s\<lparr>fta := fta s + 1\<rparr>
         in if is_successful action0 = Some True then s1\<lparr>ftm := ftm s1 + 1\<rparr> else s1)
      else if type action0 = ''assist'' then s\<lparr>assists := assists s + 1\<rparr>
      else if type action0 \<in> set [''rebound_offensive'', ''rebound_defensive''] then
        (if type action0 = ''rebound_offensive''
         then s\<lparr>offensive_rebounds := offensive_rebounds s + 1\<rparr>
         else s\<lparr>defensive_rebounds := defensive_rebounds s + 1\<rparr>)
      else if type action0 = ''steal'' then s\<lparr>steals := steals s + 1\<rparr>
      else if type action0 = ''block'' then s\<lparr>blocks := blocks s + 1\<rparr>
      else if type action0 = ''turnover'' then s\<lparr>turnovers := turnovers s + 1\<rparr>
      else if type action0 = ''foul'' then s\<lparr>fouls := fouls s + 1\<rparr>
      else s)"

text \<open>
  \<^verbatim>\<open>Stats.objects.create(video=video, player=player)\<close>: a row of defaults, saved
  through \<^verbatim>\<open>Stats.save\<close>. The model declares
  \<^verbatim>\<open>unique_together = ['video', 'player']\<close>: when the table has a row of this
  video and player already, the insert raises \<^verbatim>\<open>IntegrityError\<close> (the text of the
  message is the database's) and no row is written.
\<close>

definition Stats_objects_create :: "env \<Rightarrow> nat \<Rightarrow> nat list \<Rightarrow> nat \<Rightarrow> nat \<Rightarrow> Stats exec" where
  "Stats_objects_create env line idx video_id player_id w =
     (if list_ex (\<lambda>r. Stats.video r = video_id \<and> Stats.player r = player_id) (stats w)
      then bind_exec (call env line idx) (\<lambda>_.
             raise (IntegrityError ''UNIQUE constraint failed: stats_stats.video_id, stats_stats.player_id'')) w
      else
      Stats_save env line idx
       \<lparr>Stats.pk = fresh_pk (map Stats.pk (stats w)), video = video_id, player = player_id,
        fga_2pt = 0, fgm_2pt = 0, fga_3pt = 0, fgm_3pt = 0, fta = 0, ftm = 0, assists = 0,
        rebounds = 0, offensive_rebounds = 0, defensive_rebounds = 0, steals = 0, blocks = 0,
        turnovers = 0, fouls = 0, points = 0, minutes_played = 0, plus_minus = 0\<rparr> w)"

text \<open>
  Lines 306 to 348, one player. The actions are read when the inner loop starts
  (line 316); the order in which they are counted does not matter to the sums.
\<close>

definition player_step :: "env \<Rightarrow> Video \<Rightarrow> nat \<Rightarrow> Player \<Rightarrow> unit \<Rightarrow> unit exec" where
  "player_step env video0 i player0 u =
     bind_exec (Stats_objects_create env 310 [i] (Video.pk video0) (Player.pk player0)) (\<lambda>stats0.
     bind_exec (call env 316 [i]) (\<lambda>_ w.
       let acts = filter (\<lambda>a. Action.video a = Video.pk video0
                               \<and> Action.player a = Some (Player.pk player0)) (actions w);
           stats1 = fold count_action acts stats0;
           stats2 = stats1\<lparr>minutes_played :=
                      (case Video.duration video0 of
                         None \<Rightarrow> 0
                       | Some d \<Rightarrow> if d \<noteq> 0 then d / 60 else 0)\<rparr>
       in bind_exec (Stats_save env 348 [i] stats2) (\<lambda>_. return ()) w))"

definition calculate_stats_task_body :: "env \<Rightarrow> nat \<Rightarrow> result exec" where
  "calculate_stats_task_body env video_id =
     bind_exec (Video_objects_get env 300 [] video_id) (\<lambda>video.
     bind_exec (call env 306 []) (\<lambda>_ w.
       let players0 = filter (\<lambda>p. Player.video p = Video.pk video) (players w) in
       bind_exec (for_loop players0 0 (player_step env video) ()) (\<lambda>_.
       bind_exec (Video_save env 352 [] (video\<lparr>Video.status := ''highlights_created''\<rparr>)) (\<lambda>_.
       bind_exec (delay env 357 [] (auto_generate_highlights_task_delay (Video.pk video))) (\<lambda>_.
       return [(''status'', PyStr ''completed''),
               (''stats_created'', PyInt (int (length players0)))]))) w))"

definition calculate_stats_task :: "env \<Rightarrow> nat \<Rightarrow> result exec" where
  "calculate_stats_task env video_id =
     try_except (calculate_stats_task_body env video_id)
       (video_failed env 363 366 ''Stats calculation failed: '' video_id)"

subsection \<open>\<^verbatim>\<open>auto_generate_highlights_task\<close>\<close>

text \<open>\<^verbatim>\<open>s.replace('_', ' ').title()\<close> on ASCII strings.\<close>

definition is_lower :: "char \<Rightarrow> bool" where
  "is_lower c = (97 \<le> (of_char c :: nat) \<and> (of_char c :: nat) \<le> 122)"

definition is_upper :: "char \<Rightarrow> bool" where
  "is_upper c = (65 \<le> (of_char c :: nat) \<and> (of_char c :: nat) \<le> 90)"

definition to_upper :: "char \<Rightarrow> char" where
  "to_upper c = (if is_lower c then char_of ((of_char c :: nat) - 32) else c)"

definition to_lower :: "char \<Rightarrow> char" where
  "to_lower c = (if is_upper c then char_of ((of_char c :: nat) + 32) else c)"

fun title_from :: "bool \<Rightarrow> string \<Rightarrow> string" where
  "title_from in_word [] = []"
| "title_from in_word (c # cs) =
     (if is_lower c \<or> is_upper c
      then (if in_word then to_lower c else to_upper c) # title_from True cs
      else c # title_from False cs)"

definition py_title :: "string \<Rightarrow> string" where
  "py_title s = title_from False s"

definition py_replace_char :: "char \<Rightarrow> char \<Rightarrow> string \<Rightarrow> string" where
  "py_replace_char a b s = map (\<lambda>c. if c = a then b else c) s"

definition highlight_types :: "(string \<times> real \<times> real) list" where
  "highlight_types =
     [(''best_plays'', 0.8, 60),
      (''shooting_highlights'', 0.7, 45),
      (''defensive_highlights'', 0.7, 30)]"

text \<open>
  \<^verbatim>\<open>Highlight.objects.create\<close>. The model declares
  \<^verbatim>\<open>duration = models.FloatField()\<close>, a column that is \<^verbatim>\<open>NOT NULL\<close> and has
  no default: the insert of an object whose duration is \<^verbatim>\<open>None\<close> raises
  \<^verbatim>\<open>IntegrityError\<close> (the text of the message is the database's) and no row is
  written.
\<close>

definition Highlight_objects_create :: "env \<Rightarrow> nat \<Rightarrow> nat list \<Rightarrow> Highlight \<Rightarrow> Highlight exec" where
  "Highlight_objects_create env line idx h =
     bind_exec (call env line idx) (\<lambda>_ w.
       case Highlight.duration h of
         None \<Rightarrow>
           (Inl (IntegrityError ''NOT NULL constraint failed: highlights_highlight.duration''), w)
       | Some d \<Rightarrow>
           let h' = h\<lparr>Highlight.pk := fresh_pk (map Highlight.pk (highlights w))\<rparr>
           in (Inr h', w\<lparr>highlights := highlights w @ [h']\<rparr>))"

text \<open>
  Lines 387 to 398, one highlight type. The fields the call does not give take the
  defaults of the model; \<^verbatim>\<open>file\<close> has the empty string, \<^verbatim>\<open>duration\<close> has
  no default and is \<^verbatim>\<open>None\<close> on the object.
\<close>

definition highlight_type_step ::
  "env \<Rightarrow> Video \<Rightarrow> nat \<Rightarrow> string \<times> real \<times> real \<Rightarrow> unit \<Rightarrow> unit exec" where
  "highlight_type_step env video0 i spec u =
     (case spec of (highlight_type0, min_confidence0, max_duration0) \<Rightarrow>
        bind_exec (Highlight_objects_create env 388 [i]
           \<lparr>Highlight.pk = 0, video = Video.pk video0, player = None,
            title = ''Auto-generated '' @ py_title (py_replace_char CHR ''_'' CHR '' '' highlight_type0),
            description = None,
            highlight_type = highlight_type0,
            file = [], duration = None,
            min_confidence = min_confidence0, max_duration = max_duration0,
            is_processing = True, processing_error = None,
            view_count = 0, download_count = 0\<rparr>) (\<lambda>highlight.
        delay env 398 [i] (create_highlight_video_delay (Highlight.pk highlight))))"

definition auto_generate_highlights_task_body :: "env \<Rightarrow> nat \<Rightarrow> result exec" where
  "auto_generate_highlights_task_body env video_id =
     bind_exec (Video_objects_get env 376 [] video_id) (\<lambda>video.
     bind_exec (for_loop highlight_types 0 (highlight_type_step env video) ()) (\<lambda>_.
     bind_exec (Video_save env 403 []
        (video\<lparr>Video.status := ''done'', processing_completed_at := Some (now env)\<rparr>)) (\<lambda>_.
     return [(''status'', PyStr ''completed''),
             (''highlights_created'', PyInt (int (length highlight_types)))])))"

text \<open>The handler of lines 407 to 409 logs and returns; it touches no row.\<close>

definition auto_generate_highlights_task :: "env \<Rightarrow> nat \<Rightarrow> result exec" where
  "auto_generate_highlights_task env video_id =
     try_except (auto_generate_highlights_task_body env video_id)
       (\<lambda>e. return (error_result (str_exn e)))"

subsection \<open>\<^verbatim>\<open>create_highlight_video\<close>\<close>

text \<open>
  \<^verbatim>\<open>order_by('-confidence')\<close>. The database leaves the order of rows of equal
  confidence open; here they keep the order of the table.
\<close>

definition order_by_confidence_desc :: "Action list \<Rightarrow> Action list" where
  "order_by_confidence_desc acts = sort_key (\<lambda>a. - confidence a) acts"

text \<open>Lines 424 to 448: the candidate actions of a highlight.\<close>

definition candidate_actions :: "Highlight \<Rightarrow> Video \<Rightarrow> Action list \<Rightarrow> Action list" where
  "candidate_actions highlight video0 table =
     (let acts = filter (\<lambda>a. Action.video a = Video.pk video0
                              \<and> confidence a \<ge> min_confidence highlight) table;
          acts1 =
            (if highlight_type highlight = ''shooting_highlights'' then
               filter (\<lambda>a. type a \<in> set [''shot_2pt'', ''shot_3pt'', ''dunk'', ''layup'', ''free_throw'']) acts
             else if highlight_type highlight = ''defensive_highlights'' then
               filter (\<lambda>a. type a \<in> set [''block'', ''steal'', ''rebound_defensive'']) acts
             else if highlight_type highlight = ''best_plays'' then
               filter (\<lambda>a. type a \<in> set [''shot_3pt'', ''dunk'', ''assist'', ''steal'', ''block'']) acts
             else acts);
          acts2 =
            (case Highlight.player highlight of
               None \<Rightarrow> acts1
             | Some p \<Rightarrow> filter (\<lambda>a. Action.player a = Some p) acts1)
      in order_by_confidence_desc acts2)"

text \<open>\<^verbatim>\<open>highlight.actions.add(action)\<close>: a pair already in the join table is not added again.\<close>

definition actions_add :: "env \<Rightarrow> nat \<Rightarrow> nat list \<Rightarrow> nat \<Rightarrow> nat \<Rightarrow> unit exec" where
  "actions_add env line idx highlight_id action_id =
     bind_exec (call env line idx) (\<lambda>_ w.
       (Inr (), w\<lparr>highlight_actions :=
          (if (highlight_id, action_id) \<in> set (highlight_actions w) then highlight_actions w
           else highlight_actions w @ [(highlight_id, action_id)])\<rparr>))"

text \<open>
  Lines 455 to 471: the loop over the candidates. A clip is the pair of its start and its
  end in the video; \<open>i\<close> counts the iterations. The loop is left (\<^verbatim>\<open>break\<close>) once
  the total has reached \<^verbatim>\<open>max_duration\<close>.
\<close>

fun select_clips ::
  "env \<Rightarrow> Highlight \<Rightarrow> real \<Rightarrow> Action list \<Rightarrow> nat \<Rightarrow> (real \<times> real) list \<Rightarrow> real \<Rightarrow>
   ((real \<times> real) list \<times> real) exec" where
  "select_clips env highlight video_clip_duration [] i clips total_duration w =
     (Inr (clips, total_duration), w)"
| "select_clips env highlight video_clip_duration (action0 # rest) i clips total_duration w =
     (if total_duration \<ge> max_duration highlight then (Inr (clips, total_duration), w)
      else
        let buffer = 1;
            start = max 0 (start_time action0 - buffer);
            stop = min video_clip_duration (end_time action0 + buffer);
            clip_duration0 = stop - start
        in if total_duration + clip_duration0 \<le> max_duration highlight then
             (case call env 466 [i] w of
                (Inl e, w1) \<Rightarrow> (Inl e, w1)
              | (Inr _, w1) \<Rightarrow>
                  (case actions_add env 471 [i] (Highlight.pk highlight) (Action.pk action0) w1 of
                     (Inl e, w2) \<Rightarrow> (Inl e, w2)
                   | (Inr _, w2) \<Rightarrow>
                       select_clips env highlight video_clip_duration rest (Suc i)
                         (clips @ [(start, stop)]) (total_duration + clip_duration0) w2))
           else select_clips env highlight video_clip_duration rest (Suc i) clips total_duration w)"

definition highlight_path :: "env \<Rightarrow> nat \<Rightarrow> string" where
  "highlight_path env highlight_id =
     ''highlights/'' @ strftime_now env @ ''/highlight_'' @ string_of_nat highlight_id @ ''.mp4''"

text \<open>Lines 473 to 493: with at least one clip, the highlight video is written and the row updated.\<close>

definition write_highlight ::
  "env \<Rightarrow> Highlight \<Rightarrow> nat \<Rightarrow> (real \<times> real) list \<Rightarrow> real \<Rightarrow> unit exec" where
  "write_highlight env highlight highlight_id clips total_duration =
     (if clips \<noteq> [] then
        bind_exec (call env 475 []) (\<lambda>_.
        bind_exec (call env 480 []) (\<lambda>_.
        bind_exec (call env 482 []) (\<lambda>_.
        bind_exec (Highlight_save env 488 []
           (highlight\<lparr>Highlight.file := highlight_path env highlight_id,
                      Highlight.duration := Some total_duration,
                      is_processing := False\<rparr>)) (\<lambda>_.
        call env 491 []))))
      else return ())"

definition create_highlight_video_body :: "env \<Rightarrow> nat \<Rightarrow> result exec" where
  "create_highlight_video_body env highlight_id =
     bind_exec (Highlight_objects_get env 418 [] highlight_id) (\<lambda>highlight.
     bind_exec (Video_objects_get env 419 [] (Highlight.video highlight)) (\<lambda>video.
     bind_exec (if Highlight.player highlight \<noteq> None then call env 444 [] else return ()) (\<lambda>_.
     bind_exec (file_path video) (\<lambda>video_path.
     bind_exec (call env 451 []) (\<lambda>_.
     bind_exec (call env 455 []) (\<lambda>_ w.
     bind_exec (select_clips env highlight (clip_duration env)
                  (candidate_actions highlight video (actions w)) 0 [] 0) (\<lambda>selected.
     bind_exec (write_highlight env highlight highlight_id (fst selected) (snd selected)) (\<lambda>_.
     bind_exec (call env 495 []) (\<lambda>_.
     return [(''status'', PyStr ''completed''), (''duration'', PyFloat (snd selected))]))) w))))))"

definition create_highlight_video :: "env \<Rightarrow> nat \<Rightarrow> result exec" where
  "create_highlight_video env highlight_id =
     try_except (create_highlight_video_body env highlight_id) (\<lambda>e.
       bind_exec (Highlight_objects_get env 503 [] highlight_id) (\<lambda>highlight.
       bind_exec (Highlight_save env 506 []
          (highlight\<lparr>is_processing := False, processing_error := Some (str_exn e)\<rparr>)) (\<lambda>_.
       return (error_result (str_exn e)))))"

subsection \<open>The worker\<close>

text \<open>The try block of the task a queued call names, and the task itself.\<close>

fun task_body :: "env \<Rightarrow> task_call \<Rightarrow> result exec" where
  "task_body env (process_video_task_delay v) = process_video_task_body env v"
| "task_body env (detect_players_task_delay v) = detect_players_task_body env v"
| "task_body env (analyze_ball_and_score_task_delay v) = analyze_ball_and_score_task_body env v"
| "task_body env (detect_actions_with_mmaction_delay v m c) =
     detect_actions_with_mmaction_body env v m c"
| "task_body env (calculate_stats_task_delay v) = calculate_stats_task_body env v"
| "task_body env (auto_generate_highlights_task_delay v) = auto_generate_highlights_task_body env v"
| "task_body env (create_highlight_video_delay h) = create_highlight_video_body env h"

fun run_task :: "env \<Rightarrow> task_call \<Rightarrow> result exec" where
  "run_task env (process_video_task_delay v) = process_video_task env v"
| "run_task env (detect_players_task_delay v) = detect_players_task env v"
| "run_task env (analyze_ball_and_score_task_delay v) = analyze_ball_and_score_task env v"
| "run_task env (detect_actions_with_mmaction_delay v m c) = detect_actions_with_mmaction env v m c"
| "run_task env (calculate_stats_task_delay v) = calculate_stats_task env v"
| "run_task env (auto_generate_highlights_task_delay v) = auto_generate_highlights_task env v"
| "run_task env (create_highlight_video_delay h) = create_highlight_video env h"

subsection \<open>A concrete world\<close>

text \<open>A video of twenty seconds with three detected actions and one highlight of at most eight seconds.\<close>

definition example_env :: env where
  "example_env = \<lparr>faults = [], now = 100, strftime_now = ''2026/01/01'', MEDIA_ROOT = ''/media'',
     MMACTION2_CONFIG_PATH = Some ''cfg'', MMACTION2_CHECKPOINT_PATH = Some ''ckpt'',
     VIDEO_SEGMENT_LENGTH = 3,
     frames = [[Some [\<lparr>cls = 0, conf = 0.9, xyxy = (0, 0, 1, 1)\<rparr>]]],
     clip_duration = 20,
     inference = [[Some ([0.1, 0.9], [0, 5])], [], [Some ([0.7], [0])]]\<rparr>"

definition example_video :: Video where
  "example_video = \<lparr>Video.pk = 1, user = 1, file = ''a.mp4'', upload_date = 0,
     status = ''done'', duration = Some 20, fps = None, width = None, height = None,
     error_message = None, processing_started_at = None, processing_completed_at = None\<rparr>"

definition example_action :: "nat \<Rightarrow> string \<Rightarrow> real \<Rightarrow> real \<Rightarrow> real \<Rightarrow> Action" where
  "example_action k t s e c = \<lparr>Action.pk = k, video = 1, player = None, type = t,
     start_time = s, end_time = e, is_successful = None, x = None, y = None,
     model_type = ''mmaction2_tsn'', confidence = c, segment_path = None, metadata = []\<rparr>"

definition example_highlight :: Highlight where
  "example_highlight = \<lparr>Highlight.pk = 1, video = 1, player = None, title = ''Best'',
     description = None, highlight_type = ''best_plays'', file = [], duration = None,
     min_confidence = 0.8, max_duration = 8, is_processing = True, processing_error = None,
     view_count = 0, download_count = 0\<rparr>"

definition example_world :: world where
  "example_world = \<lparr>videos = [example_video], players = [],
     actions = [example_action 1 ''dunk'' 2 4 0.85, example_action 2 ''block'' 10 13 0.95,
                example_action 3 ''steal'' 15 16 0.9],
     highlights = [example_highlight], highlight_actions = [], stats = [], queue = []\<rparr>"

subsection \<open>Vocabulary of the proofs\<close>

text \<open>The row of a video, if there is one.\<close>

definition video_row :: "world \<Rightarrow> nat \<Rightarrow> Video option" where
  "video_row w video_id = find (\<lambda>v. Video.pk v = video_id) (videos w)"

text \<open>The row of a highlight, if there is one.\<close>

definition highlight_row :: "world \<Rightarrow> nat \<Rightarrow> Highlight option" where
  "highlight_row w highlight_id = find (\<lambda>h. Highlight.pk h = highlight_id) (highlights w)"

text \<open>A piece of code leaves the component \<open>f\<close> of the world as it found it.\<close>

definition frame :: "(world \<Rightarrow> 'x) \<Rightarrow> 'a exec \<Rightarrow> bool" where
  "frame f m = (\<forall>w. f (snd (m w)) = f w)"

text \<open>The two equations between the fields of a Stats row.\<close>

definition stats_consistent :: "Stats \<Rightarrow> bool" where
  "stats_consistent s =
     (points s = 2 * fgm_2pt s + 3 * fgm_3pt s + ftm s
      \<and> rebounds s = offensive_rebounds s + defensive_rebounds s)"

text \<open>A piece of code keeps a property of the world.\<close>

definition keeps :: "(world \<Rightarrow> bool) \<Rightarrow> 'a exec \<Rightarrow> bool" where
  "keeps P m = (\<forall>w. P w \<longrightarrow> P (snd (m w)))"

subsection \<open>The chain and the handlers, for the statements\<close>

text \<open>
  The chain as the specification gives it: the calls a task hands on to when it succeeds,
  for \<^verbatim>\<open>auto_generate_highlights_task\<close> one call per generated highlight \<open>hs\<close>.
\<close>

fun chain_successors :: "task_call \<Rightarrow> Highlight list \<Rightarrow> task_call list" where
  "chain_successors (process_video_task_delay v) hs = [detect_players_task_delay v]"
| "chain_successors (detect_players_task_delay v) hs = [analyze_ball_and_score_task_delay v]"
| "chain_successors (analyze_ball_and_score_task_delay v) hs =
     [detect_actions_with_mmaction_delay v ''mmaction2_tsn'' 0.5]"
| "chain_successors (detect_actions_with_mmaction_delay v m c) hs = [calculate_stats_task_delay v]"
| "chain_successors (calculate_stats_task_delay v) hs = [auto_generate_highlights_task_delay v]"
| "chain_successors (auto_generate_highlights_task_delay v) hs =
     map (\<lambda>h. create_highlight_video_delay (Highlight.pk h)) hs"
| "chain_successors (create_highlight_video_delay h) hs = []"

text \<open>The label the specification gives to the completion of each task, with the video it is set on.\<close>

fun status_on_success :: "task_call \<Rightarrow> (nat \<times> string) option" where
  "status_on_success (process_video_task_delay v) = Some (v, ''processing'')"
| "status_on_success (detect_players_task_delay v) = Some (v, ''players_detected'')"
| "status_on_success (analyze_ball_and_score_task_delay v) = Some (v, ''ball_analyzed'')"
| "status_on_success (detect_actions_with_mmaction_delay v m c) = Some (v, ''actions_done'')"
| "status_on_success (calculate_stats_task_delay v) = Some (v, ''highlights_created'')"
| "status_on_success (auto_generate_highlights_task_delay v) = Some (v, ''done'')"
| "status_on_success (create_highlight_video_delay h) = None"

text \<open>
  The same video freshly uploaded, and after the statistics step; the video after the
  detection of actions, with one player and four actions of this player; and two
  worlds outside in which one call fails.
\<close>

definition uploaded_world :: world where
  "uploaded_world = \<lparr>videos = [example_video\<lparr>Video.status := ''uploaded''\<rparr>], players = [],
     actions = [], highlights = [], highlight_actions = [], stats = [], queue = []\<rparr>"

definition stats_done_world :: world where
  "stats_done_world = \<lparr>videos = [example_video\<lparr>Video.status := ''highlights_created''\<rparr>],
     players = [], actions = [], highlights = [], highlight_actions = [], stats = [],
     queue = []\<rparr>"

definition example_player :: Player where
  "example_player = \<lparr>Player.pk = 1, video = 1, jersey_number = Some ''7'', team_color = ''red'',
     player_id_model = ''track_0'', detection_confidence = 0.9, avg_bbox_area = Some 1\<rparr>"

definition actions_done_world :: world where
  "actions_done_world = \<lparr>videos = [example_video\<lparr>Video.status := ''actions_done''\<rparr>],
     players = [example_player],
     actions = [(example_action 1 ''shot_2pt'' 2 4 0.85)
                  \<lparr>Action.player := Some 1, is_successful := Some True\<rparr>,
                (example_action 2 ''shot_3pt'' 10 13 0.95)
                  \<lparr>Action.player := Some 1, is_successful := Some True\<rparr>,
                (example_action 3 ''free_throw'' 15 16 0.9)\<lparr>Action.player := Some 1\<rparr>,
                (example_action 4 ''rebound_offensive'' 17 18 0.9)\<lparr>Action.player := Some 1\<rparr>],
     highlights = [], highlight_actions = [], stats = [], queue = []\<rparr>"

text \<open>A Stats object as a client could hand it in, with points and rebounds that are wrong.\<close>

definition client_stats :: Stats where
  "client_stats = \<lparr>Stats.pk = 1, video = 1, player = 1, fga_2pt = 4, fgm_2pt = 2, fga_3pt = 1,
     fgm_3pt = 1, fta = 0, ftm = 0, assists = 0, rebounds = 50, offensive_rebounds = 1,
     defensive_rebounds = 2, steals = 0, blocks = 0, turnovers = 0, fouls = 0, points = 99,
     minutes_played = 0, plus_minus = 0\<rparr>"

definition create_fails_env :: env where
  "create_fails_env = example_env\<lparr>faults := [((388, [0]), ''NOT NULL constraint failed'')]\<rparr>"

definition yolo_fails_env :: env where
  "yolo_fails_env = example_env\<lparr>faults := [((74, []), ''model file not found'')]\<rparr>"

text \<open>
  The handlers of the tasks as the source has them: the lines of the two database calls
  of a handler (\<^verbatim>\<open>auto_generate_highlights_task\<close> has none), the prefix it puts
  before the message, and where the message is to be read afterwards: in
  \<^verbatim>\<open>Video.error_message\<close> of a video whose status is \<^verbatim>\<open>error\<close>, or in
  \<^verbatim>\<open>Highlight.processing_error\<close> of a highlight no longer processing.
\<close>

fun handler_lines :: "task_call \<Rightarrow> (nat \<times> nat) option" where
  "handler_lines (process_video_task_delay v) = Some (54, 57)"
| "handler_lines (detect_players_task_delay v) = Some (151, 154)"
| "handler_lines (analyze_ball_and_score_task_delay v) = Some (185, 188)"
| "handler_lines (detect_actions_with_mmaction_delay v m c) = Some (287, 290)"
| "handler_lines (calculate_stats_task_delay v) = Some (363, 366)"
| "handler_lines (auto_generate_highlights_task_delay v) = None"
| "handler_lines (create_highlight_video_delay h) = Some (503, 506)"

fun error_prefix :: "task_call \<Rightarrow> string" where
  "error_prefix (process_video_task_delay v) = []"
| "error_prefix (detect_players_task_delay v) = ''Player detection failed: ''"
| "error_prefix (analyze_ball_and_score_task_delay v) = ''Ball analysis failed: ''"
| "error_prefix (detect_actions_with_mmaction_delay v m c) = ''Action detection failed: ''"
| "error_prefix (calculate_stats_task_delay v) = ''Stats calculation failed: ''"
| "error_prefix (auto_generate_highlights_task_delay v) = []"
| "error_prefix (create_highlight_video_delay h) = []"

definition video_error :: "world \<Rightarrow> nat \<Rightarrow> string option" where
  "video_error w v =
     (case video_row w v of
        None \<Rightarrow> None
      | Some row \<Rightarrow> if Video.status row = ''error'' then error_message row else None)"

definition highlight_error :: "world \<Rightarrow> nat \<Rightarrow> string option" where
  "highlight_error w h =
     (case highlight_row w h of
        None \<Rightarrow> None
      | Some row \<Rightarrow> if is_processing row then None else processing_error row)"

fun recorded_error :: "task_call \<Rightarrow> world \<Rightarrow> string option" where
  "recorded_error (process_video_task_delay v) w = video_error w v"
| "recorded_error (detect_players_task_delay v) w = video_error w v"
| "recorded_error (analyze_ball_and_score_task_delay v) w = video_error w v"
| "recorded_error (detect_actions_with_mmaction_delay v m c) w = video_error w v"
| "recorded_error (calculate_stats_task_delay v) w = video_error w v"
| "recorded_error (auto_generate_highlights_task_delay v) w = video_error w v"
| "recorded_error (create_highlight_video_delay h) w = highlight_error w h"

fun task_row_exists :: "task_call \<Rightarrow> world \<Rightarrow> bool" where
  "task_row_exists (process_video_task_delay v) w = (video_row w v \<noteq> None)"
| "task_row_exists (detect_players_task_delay v) w = (video_row w v \<noteq> None)"
| "task_row_exists (analyze_ball_and_score_task_delay v) w = (video_row w v \<noteq> None)"
| "task_row_exists (detect_actions_with_mmaction_delay v m c) w = (video_row w v \<noteq> None)"
| "task_row_exists (calculate_stats_task_delay v) w = (video_row w v \<noteq> None)"
| "task_row_exists (auto_generate_highlights_task_delay v) w = (video_row w v \<noteq> None)"
| "task_row_exists (create_highlight_video_delay h) w = (highlight_row w h \<noteq> None)"

section \<open>Properties\<close>

subsection \<open>Serializer validation\<close>

lemma dict_item_Some [simp]: "data k = Some v \<Longrightarrow> dict_item data k = Inr v"
  by (simp add: dict_item_def)

lemma bind_exn_Inr [simp]: "bind_exn (Inr a) f = f a"
  by (simp add: bind_exn_def)

lemma bind_exn_Inl [simp]: "bind_exn (Inl e) f = Inl e"
  by (simp add: bind_exn_def)

lemma ActionCreateSerializer_validate_eq:
  assumes "data ''start_time'' = Some s" and "data ''end_time'' = Some e"
  shows "ActionCreateSerializer_validate data =
           (if e \<le> s then Inl (ValidationError ''End time must be after start time'')
            else if 30 < float_sub e s
            then Inl (ValidationError ''Action duration cannot exceed 30 seconds'')
            else Inr data)"
  using assms by (simp add: ActionCreateSerializer_validate_def)

text \<open>
  The rounding of the subtraction of doubles, around 30: the difference computed is
  greater than 30 exactly when the exact difference is beyond the midpoint between 30
  and the next double, \<open>30 + 2 ^ - 48\<close>; at the midpoint the tie goes to 30, whose
  significand is even.
\<close>

lemma pow2_powr: "pow2 k = 2 powr (real_of_int k)"
proof (cases "0 \<le> k")
  case True
  then show ?thesis
    by (simp add: pow2_def powr_realpow [symmetric])
next
  case False
  then have r: "real (nat (- k)) = - real_of_int k" by simp
  have "(2::real) ^ nat (- k) = 2 powr real (nat (- k))"
    by (simp add: powr_realpow)
  then have "(2::real) ^ nat (- k) = 2 powr (- real_of_int k)"
    using r by simp
  with False show ?thesis
    by (simp add: pow2_def powr_minus_divide)
qed

lemma pow2_pos: "0 < pow2 k"
  by (simp add: pow2_powr)

lemma pow2_add: "pow2 (a + b) = pow2 a * pow2 b"
  by (simp add: pow2_powr powr_add)

lemma pow2_mono: "a \<le> b \<Longrightarrow> pow2 a \<le> pow2 b"
  by (simp add: pow2_powr)

lemma ilog2_bounds:
  assumes "0 < v"
  shows "pow2 (ilog2 v) \<le> v \<and> v < pow2 (ilog2 v + 1)"
proof (cases "1 \<le> v")
  case True
  let ?n = "\<lfloor>v\<rfloor>"
  have n: "0 < ?n" using True by linarith
  have b1: "1 \<le> bitlen ?n" using n by (simp add: bitlen_alt_def)
  from bitlen_bounds [OF n]
  have lo: "2 ^ nat (bitlen ?n - 1) \<le> ?n" and hi: "?n < 2 ^ nat (bitlen ?n)" by simp_all
  have "(2::real) ^ nat (bitlen ?n - 1) = real_of_int (2 ^ nat (bitlen ?n - 1))" by simp
  also have "\<dots> \<le> real_of_int ?n" using lo by (simp only: of_int_le_iff)
  also have "\<dots> \<le> v" by (rule of_int_floor_le)
  finally have l: "(2::real) ^ nat (bitlen ?n - 1) \<le> v" .
  have hi': "?n + 1 \<le> 2 ^ nat (bitlen ?n)" using hi by simp
  have "v < real_of_int ?n + 1" by (rule real_of_int_floor_add_one_gt)
  also have "\<dots> = real_of_int (?n + 1)" by simp
  also have "\<dots> \<le> real_of_int (2 ^ nat (bitlen ?n))" using hi' by (simp only: of_int_le_iff)
  also have "\<dots> = 2 ^ nat (bitlen ?n)" by simp
  finally have h: "v < (2::real) ^ nat (bitlen ?n)" .
  from l h b1 True show ?thesis
    by (simp add: ilog2_def pow2_def)
next
  case False
  let ?m = "\<lceil>1 / v\<rceil>"
  have v1: "1 < 1 / v" using False assms by simp
  have m: "0 < ?m - 1" using v1 by linarith
  let ?b = "bitlen (?m - 1)"
  have b1: "1 \<le> ?b" using m by (simp add: bitlen_alt_def)
  from bitlen_bounds [OF m]
  have lo: "2 ^ nat (?b - 1) \<le> ?m - 1" and hi: "?m - 1 < 2 ^ nat ?b" by simp_all
  have hi': "?m \<le> 2 ^ nat ?b" using hi by simp
  have "1 / v \<le> real_of_int ?m" by (rule le_of_int_ceiling)
  also have "\<dots> \<le> real_of_int (2 ^ nat ?b)" using hi' by (simp only: of_int_le_iff)
  also have "\<dots> = 2 ^ nat ?b" by simp
  finally have "1 / v \<le> 2 ^ nat ?b" .
  then have l: "1 / 2 ^ nat ?b \<le> v"
    using assms by (simp add: field_simps)
  have "(2::real) ^ nat (?b - 1) = real_of_int (2 ^ nat (?b - 1))" by simp
  also have "\<dots> \<le> real_of_int (?m - 1)" using lo by (simp only: of_int_le_iff)
  also have "\<dots> = real_of_int ?m - 1" by simp
  also have "\<dots> < 1 / v" using ceiling_correct [of "1 / v"] by simp
  finally have "2 ^ nat (?b - 1) < 1 / v" .
  then have h: "v < 1 / 2 ^ nat (?b - 1)"
    using assms by (simp add: field_simps)
  show ?thesis
  proof (cases "?b = 1")
    case True
    with l h False show ?thesis by (simp add: ilog2_def pow2_def)
  next
    case b: False
    with b1 have "1 < ?b" by simp
    then have "\<not> 0 \<le> - ?b + 1" and "nat (- (- ?b + 1)) = nat (?b - 1)" by simp_all
    with l h False b1 show ?thesis by (simp add: ilog2_def pow2_def)
  qed
qed

lemma round_half_even_le: "v \<le> of_int N \<Longrightarrow> round_half_even v \<le> N"
  by (auto simp: round_half_even_def Let_def) linarith+

lemma round_half_even_ge: "of_int N \<le> v \<Longrightarrow> N \<le> round_half_even v"
  by (auto simp: round_half_even_def Let_def) linarith+

lemma round_half_even_tie_le:
  assumes "even N" and "v \<le> of_int N + 1 / 2"
  shows "round_half_even v \<le> N"
proof -
  have le: "\<lfloor>v\<rfloor> \<le> N" using assms(2) by linarith
  show ?thesis
  proof (cases "\<lfloor>v\<rfloor> = N")
    case True
    with assms show ?thesis by (auto simp: round_half_even_def Let_def)
  next
    case False
    with le have "\<lfloor>v\<rfloor> + 1 \<le> N" by simp
    then show ?thesis by (auto simp: round_half_even_def Let_def)
  qed
qed

lemma round_half_even_gt: "of_int N + 1 / 2 < v \<Longrightarrow> N + 1 \<le> round_half_even v"
  by (auto simp: round_half_even_def Let_def) linarith+

lemma round_double_gt_30:
  assumes "0 < v"
  shows "30 < round_double v \<longleftrightarrow> 30 + 1 / 2 ^ 49 < v"
proof -
  let ?k = "ilog2 v"
  let ?u = "pow2 (?k - 52)"
  have rd: "round_double v = of_int (round_half_even (v / ?u)) * ?u"
    using assms by (simp add: round_double_def Let_def)
  have u: "0 < ?u" by (rule pow2_pos)
  from ilog2_bounds [OF assms] have lo: "pow2 ?k \<le> v" and hi: "v < pow2 (?k + 1)" by simp_all
  have c: "pow2 53 = 2 ^ 53" "pow2 52 = 2 ^ 52" by (simp_all add: pow2_def)
  have split: "pow2 (?k + 1) = 2 ^ 53 * ?u" "pow2 ?k = 2 ^ 52 * ?u"
    using pow2_add [of 53 "?k - 52"] pow2_add [of 52 "?k - 52"] unfolding c
    by (simp_all add: add.commute)
  consider "?k \<le> 3" | "?k = 4" | "5 \<le> ?k" by linarith
  then show ?thesis
  proof cases
    case 1
    then have "pow2 (?k + 1) \<le> pow2 4" by (intro pow2_mono) simp
    then have p: "pow2 (?k + 1) \<le> 16" by (simp add: pow2_def)
    have "v / ?u \<le> of_int (2 ^ 53)"
      using hi u split(1) by (simp add: field_simps)
    then have "round_half_even (v / ?u) \<le> 2 ^ 53" by (rule round_half_even_le)
    then have "real_of_int (round_half_even (v / ?u)) \<le> real_of_int (2 ^ 53)"
      by (simp only: of_int_le_iff)
    then have "round_double v \<le> 2 ^ 53 * ?u"
      unfolding rd using u by (simp add: mult_right_mono)
    with split(1) p hi show ?thesis by simp
  next
    case 2
    then have uv: "?u = 1 / 2 ^ 48" by (simp add: pow2_def)
    have rd': "round_double v = of_int (round_half_even (v * 2 ^ 48)) / 2 ^ 48"
      unfolding rd uv by simp
    show ?thesis
    proof (cases "30 + 1 / 2 ^ 49 < v")
      case True
      then have "of_int (30 * 2 ^ 48) + 1 / 2 < v * 2 ^ 48" by simp
      then have "30 * 2 ^ 48 + 1 \<le> round_half_even (v * 2 ^ 48)" by (rule round_half_even_gt)
      then have "real_of_int (30 * 2 ^ 48 + 1) \<le> real_of_int (round_half_even (v * 2 ^ 48))"
        by (simp only: of_int_le_iff)
      then have "30 < round_double v" unfolding rd' by (simp add: field_simps)
      with True show ?thesis by simp
    next
      case False
      then have "v * 2 ^ 48 \<le> of_int (30 * 2 ^ 48) + 1 / 2" by simp
      moreover have "even (30 * 2 ^ 48 :: int)" by simp
      ultimately have "round_half_even (v * 2 ^ 48) \<le> 30 * 2 ^ 48"
        by (intro round_half_even_tie_le)
      then have "real_of_int (round_half_even (v * 2 ^ 48)) \<le> real_of_int (30 * 2 ^ 48)"
        by (simp only: of_int_le_iff)
      then have "round_double v \<le> 30" unfolding rd' by (simp add: field_simps)
      with False show ?thesis by simp
    qed
  next
    case 3
    then have "pow2 5 \<le> pow2 ?k" by (intro pow2_mono)
    then have p: "32 \<le> pow2 ?k" by (simp add: pow2_def)
    have "of_int (2 ^ 52) \<le> v / ?u"
      using lo u split(2) by (simp add: field_simps)
    then have "2 ^ 52 \<le> round_half_even (v / ?u)" by (rule round_half_even_ge)
    then have "real_of_int (2 ^ 52) \<le> real_of_int (round_half_even (v / ?u))"
      by (simp only: of_int_le_iff)
    then have "2 ^ 52 * ?u \<le> round_double v"
      unfolding rd using u by (simp add: mult_right_mono)
    with split(2) p lo show ?thesis by simp
  qed
qed

lemma float_sub_gt_30: "b < a \<Longrightarrow> 30 < float_sub a b \<longleftrightarrow> 30 + 1 / 2 ^ 49 < a - b"
  by (simp add: float_sub_def round_double_gt_30)

text \<open>
  Claim C4. For every stats create/update input: if \<^verbatim>\<open>fgm_2pt > fga_2pt\<close>, or
  \<^verbatim>\<open>fgm_3pt > fga_3pt\<close>, or \<^verbatim>\<open>ftm > fta\<close> (an absent field read as 0),
  \<^verbatim>\<open>StatsCreateUpdateSerializer.validate\<close> raises \<^verbatim>\<open>ValidationError\<close>, and
  otherwise it returns the data unchanged.
\<close>

theorem stats_validate_made_le_attempts:
  "((dict_get data ''fgm_2pt'' 0 > dict_get data ''fga_2pt'' 0
      \<or> dict_get data ''fgm_3pt'' 0 > dict_get data ''fga_3pt'' 0
      \<or> dict_get data ''ftm'' 0 > dict_get data ''fta'' 0)
     \<longrightarrow> is_ValidationError (StatsCreateUpdateSerializer_validate data))
   \<and> (\<not> (dict_get data ''fgm_2pt'' 0 > dict_get data ''fga_2pt'' 0
      \<or> dict_get data ''fgm_3pt'' 0 > dict_get data ''fga_3pt'' 0
      \<or> dict_get data ''ftm'' 0 > dict_get data ''fta'' 0)
     \<longrightarrow> StatsCreateUpdateSerializer_validate data = Inr data)"
  by (simp add: StatsCreateUpdateSerializer_validate_def)

theorem stats_validate_made_le_attempts_witness:
  "is_ValidationError (StatsCreateUpdateSerializer_validate (map_of [(''fga_2pt'', 4), (''fgm_2pt'', 2), (''ftm'', 1)]))
   \<and> StatsCreateUpdateSerializer_validate (map_of [(''fga_3pt'', 5), (''fgm_3pt'', 5), (''fta'', 2)])
       = Inr (map_of [(''fga_3pt'', 5), (''fgm_3pt'', 5), (''fta'', 2)])"
  using stats_validate_made_le_attempts [of "map_of [(''fga_2pt'', 4), (''fgm_2pt'', 2), (''ftm'', 1)]"]
        stats_validate_made_le_attempts [of "map_of [(''fga_3pt'', 5), (''fgm_3pt'', 5), (''fta'', 2)]"]
  by (simp add: dict_get_def)

text \<open>
  Claim C5, as stated: for every manual action creation input,
  \<^verbatim>\<open>ActionCreateSerializer.validate\<close> raises \<^verbatim>\<open>ValidationError\<close> exactly when
  \<^verbatim>\<open>start_time >= end_time\<close>. This fails: with start 0 and end 31 the first check
  passes and the second check (the duration limit) raises \<^verbatim>\<open>ValidationError\<close>.
\<close>

theorem action_validate_order_counterexample:
  "is_ValidationError
     (ActionCreateSerializer_validate (map_of [(''start_time'', 0), (''end_time'', 31)]))
   \<and> \<not> ((0::real) \<ge> 31)"
  by (simp add: ActionCreateSerializer_validate_def float_sub_gt_30)

text \<open>
  Claim C5, amended: for every manual action creation input,
  \<^verbatim>\<open>ActionCreateSerializer.validate\<close> raises the \<^verbatim>\<open>ValidationError\<close>
  "End time must be after start time" exactly when \<^verbatim>\<open>start_time >= end_time\<close>.
\<close>

theorem action_validate_order:
  assumes "data ''start_time'' = Some s" and "data ''end_time'' = Some e"
  shows "ActionCreateSerializer_validate data
           = Inl (ValidationError ''End time must be after start time'')
         \<longleftrightarrow> s \<ge> e"
  using assms by (simp add: ActionCreateSerializer_validate_def)

theorem action_validate_order_witness:
  "map_of [(''start_time'', 7::real), (''end_time'', 5)] ''start_time'' = Some 7
   \<and> map_of [(''start_time'', 7::real), (''end_time'', 5)] ''end_time'' = Some 5
   \<and> ActionCreateSerializer_validate (map_of [(''start_time'', 7), (''end_time'', 5)])
       = Inl (ValidationError ''End time must be after start time'')"
  using action_validate_order [of "map_of [(''start_time'', 7::real), (''end_time'', 5)]" 7 5]
  by simp

text \<open>
  Claim C6, as stated: for every manual action creation input with
  \<^verbatim>\<open>end_time > start_time\<close>, \<^verbatim>\<open>ActionCreateSerializer.validate\<close> raises
  \<^verbatim>\<open>ValidationError\<close> exactly when \<^verbatim>\<open>end_time - start_time > 30\<close>. This fails
  for the difference of the two numbers: the code compares the difference of the two
  doubles as Python computes it, which is rounded. With start \<open>3 / 2 ^ 50\<close> and end
  \<open>30 + 1 / 2 ^ 48\<close>, both doubles, the end is after the start and the difference
  is \<open>30 + 1 / 2 ^ 50\<close>, more than 30; the double nearest to it is 30, and
  \<^verbatim>\<open>validate\<close> returns the data.
\<close>

theorem action_validate_duration_counterexample:
  "is_double (3 / 2 ^ 50) \<and> is_double (30 + 1 / 2 ^ 48)
   \<and> (30 + 1 / 2 ^ 48 :: real) > 3 / 2 ^ 50
   \<and> (30 + 1 / 2 ^ 48 :: real) - 3 / 2 ^ 50 > 30
   \<and> float_sub (30 + 1 / 2 ^ 48) (3 / 2 ^ 50) = 30
   \<and> ActionCreateSerializer_validate
        (map_of [(''start_time'', 3 / 2 ^ 50), (''end_time'', 30 + 1 / 2 ^ 48)])
      = Inr (map_of [(''start_time'', 3 / 2 ^ 50), (''end_time'', 30 + 1 / 2 ^ 48)])"
proof -
  have d: "is_double (3 / 2 ^ 50)" "is_double (30 + 1 / 2 ^ 48)"
    by code_simp+
  have f: "float_sub (30 + 1 / 2 ^ 48) (3 / 2 ^ 50) = 30"
    by code_simp
  have a: "map_of [(''start_time'', 3 / 2 ^ 50), (''end_time'', 30 + 1 / 2 ^ 48 :: real)]
             ''start_time'' = Some (3 / 2 ^ 50)"
    by simp
  have b: "map_of [(''start_time'', 3 / 2 ^ 50), (''end_time'', 30 + 1 / 2 ^ 48 :: real)]
             ''end_time'' = Some (30 + 1 / 2 ^ 48)"
    by simp
  have lt: "\<not> (30 + 1 / 2 ^ 48 :: real) \<le> 3 / 2 ^ 50"
    by simp
  have v: "ActionCreateSerializer_validate
        (map_of [(''start_time'', 3 / 2 ^ 50), (''end_time'', 30 + 1 / 2 ^ 48)])
      = Inr (map_of [(''start_time'', 3 / 2 ^ 50), (''end_time'', 30 + 1 / 2 ^ 48)])"
    unfolding ActionCreateSerializer_validate_eq [OF a b]
    by (simp only: lt f if_False less_irrefl)
  have gt: "(30 + 1 / 2 ^ 48 :: real) > 3 / 2 ^ 50" "(30 + 1 / 2 ^ 48 :: real) - 3 / 2 ^ 50 > 30"
    by simp_all
  from d f v gt show ?thesis by (simp only: simp_thms)
qed

text \<open>
  Claim C6, amended: for every manual action creation input with
  \<^verbatim>\<open>end_time > start_time\<close>, \<^verbatim>\<open>ActionCreateSerializer.validate\<close> raises the
  \<^verbatim>\<open>ValidationError\<close> "Action duration cannot exceed 30 seconds" exactly when the
  difference \<^verbatim>\<open>end_time - start_time\<close> as Python computes it on doubles is greater
  than 30, which is exactly when the exact difference is greater than
  \<open>30 + 2 ^ - 49\<close>; otherwise it returns the data unchanged. So it never raises on
  a duration of at most 30 seconds, and it accepts the durations between 30 and
  \<open>30 + 2 ^ - 49\<close> seconds.
\<close>

theorem action_validate_duration:
  assumes "data ''start_time'' = Some s" and "data ''end_time'' = Some e" and "e > s"
  shows "(ActionCreateSerializer_validate data
            = Inl (ValidationError ''Action duration cannot exceed 30 seconds'')
          \<longleftrightarrow> float_sub e s > 30)
       \<and> (float_sub e s > 30 \<longleftrightarrow> e - s > 30 + 1 / 2 ^ 49)
       \<and> (\<not> float_sub e s > 30 \<longrightarrow> ActionCreateSerializer_validate data = Inr data)
       \<and> (is_ValidationError (ActionCreateSerializer_validate data) \<longleftrightarrow> float_sub e s > 30)"
  using assms float_sub_gt_30 [of s e]
  by (simp add: ActionCreateSerializer_validate_def)

theorem action_validate_duration_witness:
  "map_of [(''start_time'', 2::real), (''end_time'', 40)] ''start_time'' = Some 2
   \<and> map_of [(''start_time'', 2::real), (''end_time'', 40)] ''end_time'' = Some 40
   \<and> (40::real) > 2
   \<and> float_sub 40 2 > 30
   \<and> ActionCreateSerializer_validate (map_of [(''start_time'', 2), (''end_time'', 40)])
       = Inl (ValidationError ''Action duration cannot exceed 30 seconds'')
   \<and> map_of [(''start_time'', 2::real), (''end_time'', 32)] ''start_time'' = Some 2
   \<and> map_of [(''start_time'', 2::real), (''end_time'', 32)] ''end_time'' = Some 32
   \<and> (32::real) > 2
   \<and> \<not> float_sub 32 2 > 30
   \<and> ActionCreateSerializer_validate (map_of [(''start_time'', 2), (''end_time'', 32)])
       = Inr (map_of [(''start_time'', 2), (''end_time'', 32)])"
  using action_validate_duration [of "map_of [(''start_time'', 2::real), (''end_time'', 40)]" 2 40]
        action_validate_duration [of "map_of [(''start_time'', 2::real), (''end_time'', 32)]" 2 32]
  by simp

subsection \<open>Stats\<close>

text \<open>
  Claim C10. \<^verbatim>\<open>Stats.calculate_shooting_percentages\<close> is total and never divides by
  zero: for every Stats row it returns the four keys \<^verbatim>\<open>fg_pct\<close>, \<^verbatim>\<open>fg2_pct\<close>,
  \<^verbatim>\<open>fg3_pct\<close>, \<^verbatim>\<open>ft_pct\<close>, and whenever the corresponding attempts count is zero
  the percentage returned for it is 0.
\<close>

theorem shooting_percentages_total:
  "case calculate_shooting_percentages self of
     Inl e \<Rightarrow> False
   | Inr d \<Rightarrow> map fst d = [''fg_pct'', ''fg2_pct'', ''fg3_pct'', ''ft_pct'']
       \<and> (fga_2pt self = 0 \<longrightarrow> map_of d ''fg2_pct'' = Some 0)
       \<and> (fga_3pt self = 0 \<longrightarrow> map_of d ''fg3_pct'' = Some 0)
       \<and> (fta self = 0 \<longrightarrow> map_of d ''ft_pct'' = Some 0)
       \<and> (fga_2pt self + fga_3pt self = 0 \<longrightarrow> map_of d ''fg_pct'' = Some 0)"
  by (simp add: calculate_shooting_percentages_def pct_if_positive_def py_truediv_def
        py_round1_def Let_def)

theorem shooting_percentages_total_witness:
  "calculate_shooting_percentages
     \<lparr>pk = 1, video = 1, player = 1, fga_2pt = 0, fgm_2pt = 3, fga_3pt = 0, fgm_3pt = 0,
      fta = 0, ftm = 1, assists = 0, rebounds = 0, offensive_rebounds = 0,
      defensive_rebounds = 0, steals = 0, blocks = 0, turnovers = 0, fouls = 0, points = 0,
      minutes_played = 0, plus_minus = 0\<rparr>
   = Inr [(''fg_pct'', 0), (''fg2_pct'', 0), (''fg3_pct'', 0), (''ft_pct'', 0)]"
  using shooting_percentages_total
    [of "\<lparr>pk = 1, video = 1, player = 1, fga_2pt = 0, fgm_2pt = 3, fga_3pt = 0, fgm_3pt = 0,
      fta = 0, ftm = 1, assists = 0, rebounds = 0, offensive_rebounds = 0,
      defensive_rebounds = 0, steals = 0, blocks = 0, turnovers = 0, fouls = 0, points = 0,
      minutes_played = 0, plus_minus = 0\<rparr>"]
  by (simp add: calculate_shooting_percentages_def pct_if_positive_def py_round1_def)

subsection \<open>The pipeline: what a step leaves unchanged\<close>

lemma frameD: "frame f m \<Longrightarrow> m w = (r, w') \<Longrightarrow> f w' = f w"
  by (auto simp: frame_def dest: spec [of _ w])

lemma frame_return [simp]: "frame f (return a)"
  by (simp add: frame_def return_def)

lemma frame_raise [simp]: "frame f (raise e)"
  by (simp add: frame_def raise_def)

lemma frame_lift [simp]: "frame f (lift r)"
  by (simp add: frame_def lift_def)

lemma frame_call [simp]: "frame f (call env l i)"
  by (simp add: frame_def call_def split: option.splits)

lemma frame_bind: "frame f m \<Longrightarrow> (\<And>a. frame f (g a)) \<Longrightarrow> frame f (bind_exec m g)"
  by (auto simp: frame_def bind_exec_def split: prod.splits sum.splits)
     (metis snd_conv)+

lemma frame_if: "frame f m \<Longrightarrow> frame f n \<Longrightarrow> frame f (if b then m else n)"
  by simp

lemma frame_for_loop: "(\<And>i v s. frame f (body i v s)) \<Longrightarrow> frame f (for_loop vs i body s)"
  by (induction vs arbitrary: i s) (auto intro: frame_bind)

lemma for_loop_try_frame:
  "(\<And>i v s. frame f (body i v s)) \<Longrightarrow> f (snd (for_loop_try vs i body s w)) = f w"
proof (induction vs arbitrary: i s w)
  case Nil
  then show ?case by simp
next
  case (Cons v vs)
  show ?case
  proof (cases "body i v s w")
    case (Pair r w1)
    have fw1: "f w1 = f w" using Cons.prems Pair by (rule frameD)
    show ?thesis
    proof (cases r)
      case (Inl e)
      with Pair fw1 show ?thesis by simp
    next
      case (Inr s')
      with Pair fw1 Cons.IH [OF Cons.prems, of "Suc i" s' w1] show ?thesis by simp
    qed
  qed
qed

lemma bind_exec_Inr:
  "bind_exec m g w = (Inr r, w') \<longleftrightarrow> (\<exists>a w1. m w = (Inr a, w1) \<and> g a w1 = (Inr r, w'))"
  by (auto simp: bind_exec_def split: prod.splits sum.splits)

lemma bind_exec_Inl:
  "bind_exec m g w = (Inl e, w') \<longleftrightarrow>
     m w = (Inl e, w') \<or> (\<exists>a w1. m w = (Inr a, w1) \<and> g a w1 = (Inl e, w'))"
  by (auto simp: bind_exec_def split: prod.splits sum.splits)

lemma find_replace:
  "find (\<lambda>v. key v = key r) (map (\<lambda>r'. if key r' = key r then r else r') rows)
     = (if list_ex (\<lambda>v. key v = key r) rows then Some r else None)"
  by (induction rows) auto

lemma find_replace_other:
  "k \<noteq> key r \<Longrightarrow>
   find (\<lambda>v. key v = k) (map (\<lambda>r'. if key r' = key r then r else r') rows)
     = find (\<lambda>v. key v = k) rows"
  by (induction rows) auto

lemma find_append:
  "find P (rows @ [r]) = (case find P rows of Some v \<Rightarrow> Some v | None \<Rightarrow> if P r then Some r else None)"
  by (induction rows) auto

lemma find_None_list_ex: "find P rows = None \<longleftrightarrow> \<not> list_ex P rows"
  by (induction rows) auto

lemma find_upsert_same: "key r = k \<Longrightarrow> find (\<lambda>v. key v = k) (upsert key r rows) = Some r"
  by (auto simp: upsert_def find_replace find_append find_None_list_ex [symmetric] split: option.splits)

lemma find_upsert_other:
  "k \<noteq> key r \<Longrightarrow> find (\<lambda>v. key v = k) (upsert key r rows) = find (\<lambda>v. key v = k) rows"
  by (simp add: upsert_def find_replace_other find_append split: option.splits)

lemma video_row_upsert [simp]:
  "video_row (w\<lparr>videos := upsert Video.pk s (videos w)\<rparr>) v
     = (if Video.pk s = v then Some s else video_row w v)"
  by (auto simp: video_row_def find_upsert_same find_upsert_other)

lemma video_row_queue [simp]: "video_row (w\<lparr>queue := q\<rparr>) v = video_row w v"
  by (simp add: video_row_def)

lemma find_Some_key: "find (\<lambda>v. key v = k) rows = Some r \<Longrightarrow> key r = k"
  by (induction rows) (auto split: if_splits)

lemma call_world: "call env l i w = (r, w') \<Longrightarrow> w' = w"
  by (auto simp: call_def split: option.splits)

lemma call_Inl: "call env l i w = (Inl e, w') \<Longrightarrow> (\<exists>m. e = Exception m) \<and> map_of (faults env) (l, i) \<noteq> None"
  by (auto simp: call_def split: option.splits)

lemma call_ok: "map_of (faults env) (l, i) = None \<Longrightarrow> call env l i w = (Inr (), w)"
  by (simp add: call_def)

lemma Video_objects_get_Inr:
  "Video_objects_get env l i v w = (Inr a, w') \<Longrightarrow>
     w' = w \<and> video_row w v = Some a \<and> Video.pk a = v"
  by (auto simp: Video_objects_get_def bind_exec_def call_def video_row_def
      split: option.splits dest: find_Some_key)

lemma Video_objects_get_Inl:
  "Video_objects_get env l i v w = (Inl e, w') \<Longrightarrow>
     w' = w \<and> ((\<exists>m. e = Exception m) \<or> (e = DoesNotExist \<and> video_row w v = None))"
  by (auto simp: Video_objects_get_def bind_exec_def call_def video_row_def split: option.splits)

lemma Video_save_Inr:
  "Video_save env l i s w = (Inr u, w') \<Longrightarrow> w' = w\<lparr>videos := upsert Video.pk s (videos w)\<rparr>"
  by (auto simp: Video_save_def bind_exec_def call_def split: option.splits)

lemma Video_save_Inl:
  "Video_save env l i s w = (Inl e, w') \<Longrightarrow> w' = w \<and> (\<exists>m. e = Exception m)"
  by (auto simp: Video_save_def bind_exec_def call_def split: option.splits)

lemma delay_Inr: "delay env l i c w = (Inr u, w') \<Longrightarrow> w' = w\<lparr>queue := queue w @ [c]\<rparr>"
  by (auto simp: delay_def bind_exec_def call_def split: option.splits)

lemma delay_Inl: "delay env l i c w = (Inl e, w') \<Longrightarrow> w' = w \<and> (\<exists>m. e = Exception m)"
  by (auto simp: delay_def bind_exec_def call_def split: option.splits)

lemma return_eq: "return a w = (r, w') \<longleftrightarrow> r = Inr a \<and> w' = w"
  by (auto simp: return_def)

lemma raise_eq: "raise e w = (r, w') \<longleftrightarrow> r = Inl e \<and> w' = w"
  by (auto simp: raise_def)

lemma process_video_task_body_Inr:
  assumes "process_video_task_body env v w = (Inr r, w')"
  shows "\<exists>video. video_row w v = Some video
           \<and> w' = w\<lparr>videos := upsert Video.pk
                   (video\<lparr>Video.status := ''processing'', processing_started_at := Some (now env)\<rparr>)
                   (videos w),
                 queue := queue w @ [detect_players_task_delay v]\<rparr>
           \<and> r = [(''status'', PyStr ''started''), (''video_id'', PyId v)]"
  using assms
  by (auto simp: process_video_task_body_def bind_exec_Inr return_eq
      dest!: Video_objects_get_Inr Video_save_Inr delay_Inr)

lemma process_video_task_body_Inl:
  assumes "process_video_task_body env v w = (Inl e, w')"
  shows "queue w' = queue w \<and> (video_row w v \<noteq> None \<longrightarrow> video_row w' v \<noteq> None \<and> e \<noteq> DoesNotExist)"
  using assms
  by (auto simp: process_video_task_body_def bind_exec_Inr bind_exec_Inl return_eq
      dest!: Video_objects_get_Inr Video_objects_get_Inl Video_save_Inr Video_save_Inl delay_Inr delay_Inl)

lemma frame_case_option:
  "frame f m \<Longrightarrow> (\<And>v. frame f (g v)) \<Longrightarrow> frame f (case r of None \<Rightarrow> m | Some v \<Rightarrow> g v)"
  by (cases r) auto

lemma frame_case_prod: "(\<And>a b. frame f (g a b)) \<Longrightarrow> frame f (case p of (a, b) \<Rightarrow> g a b)"
  by (cases p) auto

lemma frame_Let: "(\<And>v. frame f (g v)) \<Longrightarrow> frame f (Let a g)"
  by simp

lemma frame_frame_step: "frame f (frame_step env i rs ts)"
  unfolding frame_step_def by (intro frame_bind frame_if frame_call frame_return)

lemma frame_Player_objects_create:
  "(\<And>w v. f (w\<lparr>players := v\<rparr>) = f w) \<Longrightarrow> frame f (Player_objects_create env l i p)"
  by (simp add: frame_def Player_objects_create_def bind_exec_def call_def Let_def
      split: option.splits)

lemma frame_Action_objects_create:
  "(\<And>w v. f (w\<lparr>actions := v\<rparr>) = f w) \<Longrightarrow> frame f (Action_objects_create env l i p)"
  by (simp add: frame_def Action_objects_create_def bind_exec_def call_def Let_def
      split: option.splits)

lemma frame_Highlight_objects_create:
  "(\<And>w v. f (w\<lparr>highlights := v\<rparr>) = f w) \<Longrightarrow> frame f (Highlight_objects_create env l i p)"
  by (simp add: frame_def Highlight_objects_create_def bind_exec_def call_def Let_def
      split: option.splits)

lemma frame_Stats_save:
  "(\<And>w v. f (w\<lparr>stats := v\<rparr>) = f w) \<Longrightarrow> frame f (Stats_save env l i p)"
  by (simp add: frame_def Stats_save_def bind_exec_def call_def Let_def
      split: option.splits)

lemma frame_Stats_objects_create:
  "(\<And>w v. f (w\<lparr>stats := v\<rparr>) = f w) \<Longrightarrow> frame f (Stats_objects_create env l i a b)"
  using frame_Stats_save [of f env l i]
  by (simp add: frame_def Stats_objects_create_def bind_exec_def call_def raise_def
      split: option.splits)

lemma frame_first_player: "frame f (first_player env l i v)"
  by (simp add: frame_def first_player_def bind_exec_def call_def split: option.splits)

lemma frame_track_step:
  "(\<And>w v. f (w\<lparr>players := v\<rparr>) = f w) \<Longrightarrow> frame f (track_step env video0 i t u)"
  unfolding track_step_def Let_def
  by (intro frame_if frame_bind frame_return frame_Player_objects_create)

lemma frame_result_step:
  "(\<And>w v. f (w\<lparr>actions := v\<rparr>) = f w) \<Longrightarrow>
   frame f (result_step env video0 mt ct i st et j res n)"
  unfolding result_step_def
  by (intro frame_case_option frame_case_prod frame_bind frame_if frame_return frame_call
      frame_lift frame_first_player frame_Action_objects_create)

lemma frame_segment_step:
  assumes "\<And>w v. f (w\<lparr>actions := v\<rparr>) = f w"
  shows "frame f (segment_step env video0 mt ct sl d i st n)"
proof -
  have inner: "f (snd (for_loop_try (segment_results env i) 0
                   (result_step env video0 mt ct i st (min (real_of_int (st + sl)) d)) n w)) = f w"
    for w
    by (rule for_loop_try_frame) (rule frame_result_step [OF assms])
  have tail: "frame f (\<lambda>w. case call env 231 [i] w of
          (Inl e, w1) \<Rightarrow> (Inr n, w1)
        | (Inr _, w1) \<Rightarrow>
            (case for_loop_try (segment_results env i) 0
                    (result_step env video0 mt ct i st (min (real_of_int (st + sl)) d)) n w1 of
               ((Some e, n'), w2) \<Rightarrow> (Inr n', w2)
             | ((None, n'), w2) \<Rightarrow>
                 (case call env 266 [i] w2 of
                    (Inl e, w3) \<Rightarrow> (Inr n', w3)
                  | (Inr _, w3) \<Rightarrow> (Inr n', w3))))"
    unfolding frame_def
  proof
    fix w
    obtain eo n' w2 where lp: "for_loop_try (segment_results env i) 0
        (result_step env video0 mt ct i st (min (real_of_int (st + sl)) d)) n w = ((eo, n'), w2)"
      by (metis prod.exhaust)
    have "f w2 = f w" using inner [of w] lp by simp
    then show "f (snd (case call env 231 [i] w of
          (Inl e, w1) \<Rightarrow> (Inr n, w1)
        | (Inr _, w1) \<Rightarrow>
            (case for_loop_try (segment_results env i) 0
                    (result_step env video0 mt ct i st (min (real_of_int (st + sl)) d)) n w1 of
               ((Some e, n'), w2) \<Rightarrow> (Inr n', w2)
             | ((None, n'), w2) \<Rightarrow>
                 (case call env 266 [i] w2 of
                    (Inl e, w3) \<Rightarrow> (Inr n', w3)
                  | (Inr _, w3) \<Rightarrow> (Inr n', w3))))) = f w"
      using lp by (cases eo) (simp_all add: call_def split: option.splits)
  qed
  show ?thesis
    unfolding segment_step_def Let_def
    by (intro frame_bind frame_call) (rule tail)
qed

lemma frame_player_step:
  assumes "\<And>w v. f (w\<lparr>stats := v\<rparr>) = f w"
  shows "frame f (player_step env video0 i p u)"
proof -
  have "frame f (\<lambda>w. bind_exec (Stats_save env 348 [i] (g w)) (\<lambda>_. return ()) w)" for g
    using frame_Stats_save [OF assms, of env 348 "[i]"]
    by (auto simp: frame_def bind_exec_def return_def split: prod.splits sum.splits)
       (metis snd_conv)+
  then show ?thesis
    unfolding player_step_def Let_def
    by (intro frame_bind frame_call frame_Stats_objects_create assms)
qed

lemma video_row_cong: "videos w' = videos w \<Longrightarrow> video_row w' = video_row w"
  by (simp add: video_row_def fun_eq_iff)

lemma frames_loop_world:
  "for_loop (frames env) 0 (frame_step env) [] w = (r, w') \<Longrightarrow> w' = w"
  using frameD [of "\<lambda>w. w" "for_loop (frames env) 0 (frame_step env) []" w r w']
  by (simp add: frame_for_loop frame_frame_step)

lemma tracks_loop_world:
  assumes "for_loop ts 0 (track_step env video0) () w = (r, w')"
  shows "queue w' = queue w \<and> video_row w' = video_row w"
proof -
  have "queue w' = queue w"
    using frameD [of queue "for_loop ts 0 (track_step env video0) ()" w r w'] assms
    by (simp add: frame_for_loop frame_track_step)
  moreover have "videos w' = videos w"
    using frameD [of videos "for_loop ts 0 (track_step env video0) ()" w r w'] assms
    by (simp add: frame_for_loop frame_track_step)
  ultimately show ?thesis
    using video_row_cong [of w' w] by simp
qed

lemma segments_loop_world:
  assumes "for_loop starts 0 (segment_step env video0 mt ct sl d) n w = (r, w')"
  shows "queue w' = queue w \<and> video_row w' = video_row w"
proof -
  have "queue w' = queue w"
    using frameD [of queue "for_loop starts 0 (segment_step env video0 mt ct sl d) n" w r w'] assms
    by (simp add: frame_for_loop frame_segment_step)
  moreover have "videos w' = videos w"
    using frameD [of videos "for_loop starts 0 (segment_step env video0 mt ct sl d) n" w r w'] assms
    by (simp add: frame_for_loop frame_segment_step)
  ultimately show ?thesis
    using video_row_cong [of w' w] by simp
qed

lemma players_loop_world:
  assumes "for_loop ps 0 (player_step env video0) () w = (r, w')"
  shows "queue w' = queue w \<and> video_row w' = video_row w"
proof -
  have "queue w' = queue w"
    using frameD [of queue "for_loop ps 0 (player_step env video0) ()" w r w'] assms
    by (simp add: frame_for_loop frame_player_step)
  moreover have "videos w' = videos w"
    using frameD [of videos "for_loop ps 0 (player_step env video0) ()" w r w'] assms
    by (simp add: frame_for_loop frame_player_step)
  ultimately show ?thesis
    using video_row_cong [of w' w] by simp
qed

lemma file_path_world: "file_path video0 w = (r, w') \<Longrightarrow> w' = w"
  by (auto simp: file_path_def raise_def return_def split: if_splits)

lemma lift_world: "lift res w = (r, w') \<Longrightarrow> w' = w"
  by (simp add: lift_def)

lemmas step_Inr = Video_objects_get_Inr Video_save_Inr delay_Inr
lemmas step_Inl = Video_objects_get_Inl Video_save_Inl delay_Inl
lemmas step_world = call_world file_path_world lift_world frames_loop_world

lemma detect_players_task_body_Inr:
  assumes "detect_players_task_body env v w = (Inr r, w')"
  shows "\<exists>video. video_row w v = Some video
           \<and> video_row w' v = Some (video\<lparr>Video.status := ''players_detected''\<rparr>)
           \<and> queue w' = queue w @ [analyze_ball_and_score_task_delay v]"
  using assms
  by (auto simp: detect_players_task_body_def bind_exec_Inr return_eq
      dest!: step_Inr step_world tracks_loop_world)

lemma detect_players_task_body_Inl:
  assumes "detect_players_task_body env v w = (Inl e, w')"
  shows "queue w' = queue w \<and> (video_row w v \<noteq> None \<longrightarrow> video_row w' v \<noteq> None)"
  using assms
  by (auto simp: detect_players_task_body_def bind_exec_Inr bind_exec_Inl return_eq
      dest!: step_Inr step_Inl step_world tracks_loop_world)

lemma analyze_ball_and_score_task_body_Inr:
  assumes "analyze_ball_and_score_task_body env v w = (Inr r, w')"
  shows "\<exists>video. video_row w v = Some video
           \<and> video_row w' v = Some (video\<lparr>Video.status := ''ball_analyzed''\<rparr>)
           \<and> queue w' = queue w @ [detect_actions_with_mmaction_delay v ''mmaction2_tsn'' 0.5]"
  using assms
  by (auto simp: analyze_ball_and_score_task_body_def bind_exec_Inr return_eq
      dest!: step_Inr step_world)

lemma analyze_ball_and_score_task_body_Inl:
  assumes "analyze_ball_and_score_task_body env v w = (Inl e, w')"
  shows "queue w' = queue w \<and> (video_row w v \<noteq> None \<longrightarrow> video_row w' v \<noteq> None)"
  using assms
  by (auto simp: analyze_ball_and_score_task_body_def bind_exec_Inr bind_exec_Inl return_eq
      dest!: step_Inr step_Inl step_world)

lemma detect_actions_with_mmaction_body_Inr:
  assumes "detect_actions_with_mmaction_body env v mt ct w = (Inr r, w')"
  shows "\<exists>video. video_row w v = Some video
           \<and> video_row w' v = Some (video\<lparr>Video.status := ''actions_done''\<rparr>)
           \<and> queue w' = queue w @ [calculate_stats_task_delay v]"
  using assms
  by (auto simp: detect_actions_with_mmaction_body_def bind_exec_Inr return_eq raise_eq
      split: if_splits
      dest!: step_Inr step_world segments_loop_world)

lemma detect_actions_with_mmaction_body_Inl:
  assumes "detect_actions_with_mmaction_body env v mt ct w = (Inl e, w')"
  shows "queue w' = queue w \<and> (video_row w v \<noteq> None \<longrightarrow> video_row w' v \<noteq> None)"
  using assms
  by (auto simp: detect_actions_with_mmaction_body_def bind_exec_Inr bind_exec_Inl return_eq raise_eq
      split: if_splits
      dest!: step_Inr step_Inl step_world segments_loop_world)

lemma calculate_stats_task_body_Inr:
  assumes "calculate_stats_task_body env v w = (Inr r, w')"
  shows "\<exists>video. video_row w v = Some video
           \<and> video_row w' v = Some (video\<lparr>Video.status := ''highlights_created''\<rparr>)
           \<and> queue w' = queue w @ [auto_generate_highlights_task_delay v]"
  using assms
  by (auto simp: calculate_stats_task_body_def bind_exec_Inr return_eq Let_def
      dest!: step_Inr step_world players_loop_world)

lemma calculate_stats_task_body_Inl:
  assumes "calculate_stats_task_body env v w = (Inl e, w')"
  shows "queue w' = queue w \<and> (video_row w v \<noteq> None \<longrightarrow> video_row w' v \<noteq> None)"
  using assms
  by (auto simp: calculate_stats_task_body_def bind_exec_Inr bind_exec_Inl return_eq Let_def
      dest!: step_Inr step_Inl step_world players_loop_world)

lemma highlight_row_upsert [simp]:
  "highlight_row (w\<lparr>highlights := upsert Highlight.pk s (highlights w)\<rparr>) h
     = (if Highlight.pk s = h then Some s else highlight_row w h)"
  by (auto simp: highlight_row_def find_upsert_same find_upsert_other)

lemma highlight_row_cong: "highlights w' = highlights w \<Longrightarrow> highlight_row w' = highlight_row w"
  by (simp add: highlight_row_def fun_eq_iff)

lemma Highlight_objects_create_Inr:
  "Highlight_objects_create env l i h w = (Inr h', w') \<Longrightarrow>
     h' = h\<lparr>Highlight.pk := fresh_pk (map Highlight.pk (highlights w))\<rparr>
     \<and> w' = w\<lparr>highlights := highlights w @ [h']\<rparr>"
  by (auto simp: Highlight_objects_create_def bind_exec_def call_def Let_def split: option.splits)

lemma Highlight_objects_create_Inl:
  "Highlight_objects_create env l i h w = (Inl e, w') \<Longrightarrow> w' = w"
  by (auto simp: Highlight_objects_create_def bind_exec_def call_def Let_def split: option.splits)

lemma Highlight_objects_get_Inr:
  "Highlight_objects_get env l i h w = (Inr a, w') \<Longrightarrow>
     w' = w \<and> highlight_row w h = Some a \<and> Highlight.pk a = h"
  by (auto simp: Highlight_objects_get_def bind_exec_def call_def highlight_row_def
      split: option.splits dest: find_Some_key)

lemma Highlight_objects_get_Inl:
  "Highlight_objects_get env l i h w = (Inl e, w') \<Longrightarrow> w' = w"
  by (auto simp: Highlight_objects_get_def bind_exec_def call_def split: option.splits)

lemma Highlight_save_Inr:
  "Highlight_save env l i s w = (Inr u, w') \<Longrightarrow>
     w' = w\<lparr>highlights := upsert Highlight.pk s (highlights w)\<rparr>"
  by (auto simp: Highlight_save_def bind_exec_def call_def split: option.splits)

lemma Highlight_save_Inl:
  "Highlight_save env l i s w = (Inl e, w') \<Longrightarrow> w' = w"
  by (auto simp: Highlight_save_def bind_exec_def call_def split: option.splits)

lemma auto_generate_highlights_task_body_Inr:
  assumes "auto_generate_highlights_task_body env v w = (Inr r, w')"
  shows "\<exists>video h1 h2 h3. video_row w v = Some video
           \<and> video_row w' v = Some (video\<lparr>Video.status := ''done'',
                                          processing_completed_at := Some (now env)\<rparr>)
           \<and> highlights w' = highlights w @ [h1, h2, h3]
           \<and> Highlight.video h1 = v \<and> Highlight.video h2 = v \<and> Highlight.video h3 = v
           \<and> queue w' = queue w @ [create_highlight_video_delay (Highlight.pk h1),
                                    create_highlight_video_delay (Highlight.pk h2),
                                    create_highlight_video_delay (Highlight.pk h3)]"
  using assms
  by (auto simp: auto_generate_highlights_task_body_def highlight_types_def highlight_type_step_def
        bind_exec_Inr return_eq video_row_def find_upsert_same
      dest!: step_Inr step_world Highlight_objects_create_Inr)

lemma auto_generate_highlights_task_body_Inl:
  assumes "auto_generate_highlights_task_body env v w = (Inl e, w')"
  shows "videos w' = videos w"
  using assms
  by (auto simp: auto_generate_highlights_task_body_def highlight_types_def highlight_type_step_def
        bind_exec_Inr bind_exec_Inl return_eq
      dest!: step_Inr step_Inl step_world Highlight_objects_create_Inr Highlight_objects_create_Inl)

subsection \<open>The clip selection of \<^verbatim>\<open>create_highlight_video\<close>\<close>

lemma actions_add_world:
  "actions_add env l i h a w = (r, w') \<Longrightarrow>
     queue w' = queue w \<and> videos w' = videos w \<and> highlights w' = highlights w
     \<and> actions w' = actions w"
  by (auto simp: actions_add_def bind_exec_def call_def split: option.splits)

lemma select_clips_world:
  "select_clips env h vd acts i clips tot w = (r, w') \<Longrightarrow>
     queue w' = queue w \<and> videos w' = videos w \<and> highlights w' = highlights w
     \<and> actions w' = actions w"
proof (induction env h vd acts i clips tot w rule: select_clips.induct)
  case (1 env h vd i clips tot w)
  then show ?case by simp
next
  case (2 env h vd a rest i clips tot w)
  from "2.prems" "2.IH" show ?case
    by (auto simp: Let_def split: if_splits prod.splits sum.splits
        dest!: call_world actions_add_world)
qed


lemma select_clips_break:
  "tot \<ge> max_duration h \<Longrightarrow>
   select_clips env h vd acts i clips tot w = (Inr (clips, tot), w)"
  by (cases acts) simp_all


lemma find_upsert_exists:
  "find (\<lambda>v. key v = k) rows = Some r0 \<Longrightarrow> \<exists>r1. find (\<lambda>v. key v = k) (upsert key r rows) = Some r1"
  by (cases "key r = k") (simp_all add: find_upsert_same find_upsert_other)

lemma write_highlight_Inr:
  assumes "write_highlight env highlight hid clips tot w = (Inr u, w')"
  shows "queue w' = queue w
         \<and> (clips \<noteq> [] \<longrightarrow>
            highlights w' = upsert Highlight.pk
                   (highlight\<lparr>Highlight.file := highlight_path env hid,
                              Highlight.duration := Some tot,
                              is_processing := False\<rparr>) (highlights w))
         \<and> (clips = [] \<longrightarrow> highlights w' = highlights w)"
  using assms
  by (auto simp: write_highlight_def bind_exec_Inr return_eq split: if_splits
      dest!: call_world Highlight_save_Inr)

lemma write_highlight_world:
  assumes "write_highlight env highlight hid clips tot w = (r, w')"
  shows "queue w' = queue w \<and> videos w' = videos w
         \<and> (highlights w' = highlights w
            \<or> highlights w' = upsert Highlight.pk
                   (highlight\<lparr>Highlight.file := highlight_path env hid,
                              Highlight.duration := Some tot,
                              is_processing := False\<rparr>) (highlights w))"
proof (cases r)
  case (Inl e)
  with assms show ?thesis
    by (auto simp: write_highlight_def bind_exec_Inr bind_exec_Inl return_eq split: if_splits
        dest!: call_world Highlight_save_Inr Highlight_save_Inl)
next
  case (Inr u)
  with assms show ?thesis
    by (auto simp: write_highlight_def bind_exec_Inr return_eq split: if_splits
        dest!: call_world Highlight_save_Inr)
qed

lemma create_highlight_video_body_Inr:
  assumes "create_highlight_video_body env hid w = (Inr r, w')"
  shows "\<exists>highlight video0 clips tot w1.
      highlight_row w hid = Some highlight
      \<and> video_row w (Highlight.video highlight) = Some video0
      \<and> select_clips env highlight (clip_duration env)
           (candidate_actions highlight video0 (actions w)) 0 [] 0 w = (Inr (clips, tot), w1)
      \<and> r = [(''status'', PyStr ''completed''), (''duration'', PyFloat tot)]
      \<and> queue w' = queue w
      \<and> (clips \<noteq> [] \<longrightarrow>
            highlights w' = upsert Highlight.pk
                   (highlight\<lparr>Highlight.file := highlight_path env hid,
                              Highlight.duration := Some tot,
                              is_processing := False\<rparr>) (highlights w))
      \<and> (clips = [] \<longrightarrow> highlights w' = highlights w)"
  using assms
  apply (clarsimp simp: create_highlight_video_body_def bind_exec_Inr return_eq
      dest!: Highlight_objects_get_Inr Video_objects_get_Inr)
  apply (frule select_clips_world)
  apply (auto simp: return_eq split: if_splits dest!: call_world file_path_world write_highlight_Inr)
  done

lemma create_highlight_video_body_world:
  assumes "create_highlight_video_body env hid w = (r, w')"
  shows "queue w' = queue w
         \<and> (highlight_row w hid \<noteq> None \<longrightarrow> highlight_row w' hid \<noteq> None)"
proof (cases r)
  case (Inr res)
  with assms create_highlight_video_body_Inr [of env hid w res w'] show ?thesis
    by (auto simp: highlight_row_def intro: find_upsert_exists)
next
  case (Inl e)
  with assms show ?thesis
    by (auto simp: create_highlight_video_body_def bind_exec_Inr bind_exec_Inl return_eq
          highlight_row_def
        split: if_splits
        dest!: call_world file_path_world Highlight_objects_get_Inr Highlight_objects_get_Inl
          Video_objects_get_Inr Video_objects_get_Inl select_clips_world write_highlight_world
        intro: find_upsert_exists)
qed

lemma error_result_status [simp]: "map_of (error_result m) ''status'' = Some (PyStr ''error'')"
  by (simp add: error_result_def)




subsection \<open>The pipeline: success and failure of a task\<close>

lemma try_except_success:
  "fst (m w) = Inr r \<Longrightarrow> try_except m h w = m w"
  by (cases "m w") (simp add: try_except_def)

lemma try_except_failure: "m w = (Inl e, w1) \<Longrightarrow> try_except m h w = h e w1"
  by (simp add: try_except_def)

lemma run_task_success:
  "fst (task_body env c w) = Inr r \<Longrightarrow> run_task env c w = task_body env c w"
  by (cases c)
     (simp_all add: try_except_success process_video_task_def detect_players_task_def
        analyze_ball_and_score_task_def detect_actions_with_mmaction_def calculate_stats_task_def
        auto_generate_highlights_task_def create_highlight_video_def)

lemma fst_eq_Inr: "fst p = Inr r \<Longrightarrow> p = (Inr r, snd p)"
  by (cases p) simp

lemma task_body_queue:
  assumes "fst (task_body env c w) = Inr r"
  shows "queue (snd (task_body env c w))
           = queue w @ chain_successors c
               (drop (length (highlights w)) (highlights (snd (task_body env c w))))"
proof (cases c)
  case (process_video_task_delay v)
  with process_video_task_body_Inr [OF fst_eq_Inr, of env v w r] assms show ?thesis by auto
next
  case (detect_players_task_delay v)
  with detect_players_task_body_Inr [OF fst_eq_Inr, of env v w r] assms show ?thesis by auto
next
  case (analyze_ball_and_score_task_delay v)
  with analyze_ball_and_score_task_body_Inr [OF fst_eq_Inr, of env v w r] assms show ?thesis
    by auto
next
  case (detect_actions_with_mmaction_delay v m t)
  with detect_actions_with_mmaction_body_Inr [OF fst_eq_Inr, of env v m t w r] assms
  show ?thesis by auto
next
  case (calculate_stats_task_delay v)
  with calculate_stats_task_body_Inr [OF fst_eq_Inr, of env v w r] assms show ?thesis by auto
next
  case (auto_generate_highlights_task_delay v)
  with auto_generate_highlights_task_body_Inr [OF fst_eq_Inr, of env v w r] assms
  show ?thesis by auto
next
  case (create_highlight_video_delay h)
  with create_highlight_video_body_Inr [OF fst_eq_Inr, of env h w r] assms show ?thesis by auto
qed

lemma task_body_status:
  assumes "fst (task_body env c w) = Inr r" and "status_on_success c = Some (v, label)"
  shows "map_option Video.status (video_row (snd (task_body env c w)) v) = Some label"
proof (cases c)
  case (process_video_task_delay v')
  with process_video_task_body_Inr [OF fst_eq_Inr, of env v' w r] assms show ?thesis
    by (auto simp: video_row_def find_upsert_same dest: find_Some_key)
next
  case (detect_players_task_delay v')
  with detect_players_task_body_Inr [OF fst_eq_Inr, of env v' w r] assms show ?thesis by auto
next
  case (analyze_ball_and_score_task_delay v')
  with analyze_ball_and_score_task_body_Inr [OF fst_eq_Inr, of env v' w r] assms show ?thesis
    by auto
next
  case (detect_actions_with_mmaction_delay v' m t)
  with detect_actions_with_mmaction_body_Inr [OF fst_eq_Inr, of env v' m t w r] assms
  show ?thesis by auto
next
  case (calculate_stats_task_delay v')
  with calculate_stats_task_body_Inr [OF fst_eq_Inr, of env v' w r] assms show ?thesis by auto
next
  case (auto_generate_highlights_task_delay v')
  with auto_generate_highlights_task_body_Inr [OF fst_eq_Inr, of env v' w r] assms
  show ?thesis by auto
next
  case (create_highlight_video_delay h)
  with assms show ?thesis by simp
qed

lemma task_success_enqueues_successors:
  assumes "fst (task_body env c w) = Inr r"
  shows "run_task env c w = task_body env c w
       \<and> queue (snd (run_task env c w))
           = queue w @ chain_successors c
               (drop (length (highlights w)) (highlights (snd (run_task env c w))))"
proof -
  have same: "run_task env c w = task_body env c w"
    using assms by (rule run_task_success)
  have q: "queue (snd (task_body env c w))
           = queue w @ chain_successors c
               (drop (length (highlights w)) (highlights (snd (task_body env c w))))"
    using assms by (rule task_body_queue)
  from q show ?thesis unfolding same by simp
qed

text \<open>
  The first five tasks do succeed, and hand on to their successor: runs on the example
  video, in a world outside without faults.
\<close>

lemma process_video_task_run:
  "run_task example_env (process_video_task_delay 1) uploaded_world
     = (Inr [(''status'', PyStr ''started''), (''video_id'', PyId 1)],
        uploaded_world\<lparr>videos := [example_video\<lparr>Video.status := ''processing'',
                                       processing_started_at := Some 100\<rparr>],
                        queue := [detect_players_task_delay 1]\<rparr>)"
  by code_simp

lemma detect_players_task_run:
  "fst (run_task example_env (detect_players_task_delay 1) uploaded_world)
     = Inr [(''status'', PyStr ''completed''), (''players_detected'', PyInt 1)]
   \<and> queue (snd (run_task example_env (detect_players_task_delay 1) uploaded_world))
     = [analyze_ball_and_score_task_delay 1]"
  by code_simp

lemma analyze_ball_and_score_task_run:
  "fst (run_task example_env (analyze_ball_and_score_task_delay 1) uploaded_world)
     = Inr [(''status'', PyStr ''completed'')]
   \<and> queue (snd (run_task example_env (analyze_ball_and_score_task_delay 1) uploaded_world))
     = [detect_actions_with_mmaction_delay 1 ''mmaction2_tsn'' 0.5]"
  by code_simp

lemma detect_actions_with_mmaction_run:
  "fst (run_task example_env (detect_actions_with_mmaction_delay 1 ''mmaction2_tsn'' 0.5)
          uploaded_world)
     = Inr [(''status'', PyStr ''completed''), (''actions_created'', PyInt 2)]
   \<and> queue (snd (run_task example_env (detect_actions_with_mmaction_delay 1 ''mmaction2_tsn'' 0.5)
                    uploaded_world))
     = [calculate_stats_task_delay 1]"
  by code_simp

lemma calculate_stats_task_run:
  "fst (run_task example_env (calculate_stats_task_delay 1) actions_done_world)
     = Inr [(''status'', PyStr ''completed''), (''stats_created'', PyInt 1)]
   \<and> queue (snd (run_task example_env (calculate_stats_task_delay 1) actions_done_world))
     = [auto_generate_highlights_task_delay 1]"
  by code_simp

lemma auto_generate_highlights_task_body_fails:
  "\<exists>e. auto_generate_highlights_task_body env v w = (Inl e, w)"
  by (auto simp: auto_generate_highlights_task_body_def highlight_types_def
        highlight_type_step_def Highlight_objects_create_def Video_objects_get_def
        bind_exec_def call_def
      split: option.splits)

text \<open>
  Claim C3 says that on the success path each task enqueues exactly the next task of the
  chain, the final link being \<^verbatim>\<open>auto_generate_highlights_task\<close>, which enqueues
  one \<^verbatim>\<open>create_highlight_video\<close> per generated highlight. The five links before it
  hold (lemma \<open>task_success_enqueues_successors\<close>, and the runs above). The final
  link never fires: \<^verbatim>\<open>Highlight.objects.create\<close> at line 388 gives no
  \<^verbatim>\<open>duration\<close>, the column is \<^verbatim>\<open>NOT NULL\<close> without a default, and the first
  insert raises. Whatever the database holds and whatever the world outside does, the
  try block of \<^verbatim>\<open>auto_generate_highlights_task\<close> raises, the task returns the
  dict with status \<^verbatim>\<open>error\<close>, and the database and the queue are as they were:
  no highlight is generated and \<^verbatim>\<open>create_highlight_video\<close> is not enqueued. In a
  world without faults, on an existing video, the exception is the
  \<^verbatim>\<open>IntegrityError\<close> of the insert.
\<close>

theorem auto_generate_never_enqueues:
  "(\<exists>e. task_body env (auto_generate_highlights_task_delay v) w = (Inl e, w)
        \<and> run_task env (auto_generate_highlights_task_delay v) w
            = (Inr (error_result (str_exn e)), w))
   \<and> queue (snd (run_task env (auto_generate_highlights_task_delay v) w)) = queue w
   \<and> highlights (snd (run_task env (auto_generate_highlights_task_delay v) w)) = highlights w
   \<and> run_task example_env (auto_generate_highlights_task_delay 1) stats_done_world
       = (Inr [(''status'', PyStr ''error''),
               (''message'', PyStr ''NOT NULL constraint failed: highlights_highlight.duration'')],
          stats_done_world)"
proof -
  obtain e where body: "auto_generate_highlights_task_body env v w = (Inl e, w)"
    using auto_generate_highlights_task_body_fails [of env v w] by blast
  have run: "run_task env (auto_generate_highlights_task_delay v) w
               = (Inr (error_result (str_exn e)), w)"
    by (simp add: auto_generate_highlights_task_def return_def
        try_except_failure [where m = "auto_generate_highlights_task_body env v", OF body])
  have ex: "run_task example_env (auto_generate_highlights_task_delay 1) stats_done_world
       = (Inr [(''status'', PyStr ''error''),
               (''message'', PyStr ''NOT NULL constraint failed: highlights_highlight.duration'')],
          stats_done_world)"
    by code_simp
  from body run ex show ?thesis by (simp del: run_task.simps)
qed

lemma fst_eq_Inl: "fst p = Inl e \<Longrightarrow> p = (Inl e, snd p)"
  by (cases p) simp

lemma video_failed_recorded:
  assumes "video_row w v \<noteq> None"
      and "map_of (faults env) (g, []) = None" and "map_of (faults env) (s, []) = None"
  shows "fst (video_failed env g s prefix v e w) = Inr (error_result (str_exn e))
       \<and> video_error (snd (video_failed env g s prefix v e w)) v = Some (prefix @ str_exn e)
       \<and> queue (snd (video_failed env g s prefix v e w)) = queue w"
proof -
  from assms(1) obtain row where row: "find (\<lambda>r. Video.pk r = v) (videos w) = Some row"
    by (auto simp: video_row_def)
  then have k: "Video.pk row = v" by (rule find_Some_key)
  show ?thesis
    using row k assms(2,3)
    by (simp add: video_failed_def Video_objects_get_def Video_save_def bind_exec_def call_def
        return_def video_error_def video_row_def find_upsert_same)
qed

lemma highlight_failed_recorded:
  assumes "highlight_row w h \<noteq> None"
      and "map_of (faults env) (503, []) = None" and "map_of (faults env) (506, []) = None"
  shows "fst (bind_exec (Highlight_objects_get env 503 [] h) (\<lambda>highlight.
           bind_exec (Highlight_save env 506 []
              (highlight\<lparr>is_processing := False, processing_error := Some (str_exn e)\<rparr>)) (\<lambda>_.
           return (error_result (str_exn e)))) w) = Inr (error_result (str_exn e))
       \<and> highlight_error (snd (bind_exec (Highlight_objects_get env 503 [] h) (\<lambda>highlight.
           bind_exec (Highlight_save env 506 []
              (highlight\<lparr>is_processing := False, processing_error := Some (str_exn e)\<rparr>)) (\<lambda>_.
           return (error_result (str_exn e)))) w)) h = Some (str_exn e)
       \<and> queue (snd (bind_exec (Highlight_objects_get env 503 [] h) (\<lambda>highlight.
           bind_exec (Highlight_save env 506 []
              (highlight\<lparr>is_processing := False, processing_error := Some (str_exn e)\<rparr>)) (\<lambda>_.
           return (error_result (str_exn e)))) w)) = queue w"
proof -
  from assms(1) obtain row where row: "find (\<lambda>r. Highlight.pk r = h) (highlights w) = Some row"
    by (auto simp: highlight_row_def)
  then have k: "Highlight.pk row = h" by (rule find_Some_key)
  show ?thesis
    using row k assms(2,3)
    by (simp add: Highlight_objects_get_def Highlight_save_def bind_exec_def call_def
        return_def highlight_error_def highlight_row_def find_upsert_same)
qed

lemma video_task_failure:
  assumes body: "body w = (Inl e, w1)"
      and kept: "queue w1 = queue w \<and> (video_row w v \<noteq> None \<longrightarrow> video_row w1 v \<noteq> None)"
      and row: "video_row w v \<noteq> None"
      and ok: "map_of (faults env) (g, []) = None" "map_of (faults env) (s, []) = None"
  shows "fst (try_except body (video_failed env g s prefix v) w) = Inr (error_result (str_exn e))
       \<and> video_error (snd (try_except body (video_failed env g s prefix v) w)) v
           = Some (prefix @ str_exn e)
       \<and> queue (snd (try_except body (video_failed env g s prefix v) w)) = queue w"
proof -
  have row1: "video_row w1 v \<noteq> None" using kept row by simp
  from video_failed_recorded [OF row1 ok, of prefix e] kept
  show ?thesis by (simp add: try_except_failure [where m = body, OF body])
qed

text \<open>
  Claim C2, as stated: for every pipeline task, whenever its body raises any exception,
  the task writes the error string into the corresponding row, returns a dict with status
  \<^verbatim>\<open>error\<close> and enqueues nothing. This fails where there is no row to write to:
  \<^verbatim>\<open>process_video_task\<close> on a video that does not exist raises
  \<^verbatim>\<open>Video.DoesNotExist\<close> in its body, and the branch the source has for this
  exception returns the dict and leaves the world as it was.
\<close>

theorem failure_is_recorded_counterexample:
  "fst (task_body example_env (process_video_task_delay 7) example_world) = Inl DoesNotExist
   \<and> run_task example_env (process_video_task_delay 7) example_world
       = (Inr [(''status'', PyStr ''error''), (''message'', PyStr ''Video not found'')],
          example_world)
   \<and> recorded_error (process_video_task_delay 7) example_world = None"
  by (simp add: process_video_task_def process_video_task_body_def try_except_def
      Video_objects_get_def bind_exec_def call_def return_def error_result_def
      example_world_def example_video_def example_env_def video_error_def video_row_def)

text \<open>
  Claim C2, amended: for every pipeline task that has a handler writing to a row (all but
  \<^verbatim>\<open>auto_generate_highlights_task\<close>), whenever its body raises an exception while the
  row the task works on exists and the two database calls of the handler succeed, the
  task returns the dict with status \<^verbatim>\<open>error\<close> and the message, the message (after the
  prefix of the step) is stored in that row (\<^verbatim>\<open>Video.error_message\<close> with status
  \<^verbatim>\<open>error\<close>, or \<^verbatim>\<open>Highlight.processing_error\<close>), and the queue is as before
  the task.
\<close>

theorem failure_is_recorded:
  assumes "fst (task_body env c w) = Inl e"
      and "handler_lines c = Some (g, s)"
      and "map_of (faults env) (g, []) = None"
      and "map_of (faults env) (s, []) = None"
      and "task_row_exists c w"
  shows "fst (run_task env c w) = Inr (error_result (str_exn e))
       \<and> recorded_error c (snd (run_task env c w)) = Some (error_prefix c @ str_exn e)
       \<and> queue (snd (run_task env c w)) = queue w"
proof (cases c)
  case (process_video_task_delay v)
  let ?w1 = "snd (process_video_task_body env v w)"
  have body: "process_video_task_body env v w = (Inl e, ?w1)"
    using assms(1) process_video_task_delay by (auto dest: fst_eq_Inl)
  from process_video_task_body_Inl [OF body] assms(5) process_video_task_delay
  have kept: "queue ?w1 = queue w" "video_row ?w1 v \<noteq> None" "e \<noteq> DoesNotExist"
    by auto
  have run: "run_task env c w = video_failed env 54 57 [] v e ?w1"
    using kept(3) process_video_task_delay
    by (cases e) (simp_all add: process_video_task_def
        try_except_failure [where m = "process_video_task_body env v", OF body])
  from video_failed_recorded [OF kept(2), of env 54 57 "[]" e] assms(2,3,4) kept(1)
    process_video_task_delay
  show ?thesis unfolding run by simp
next
  case (detect_players_task_delay v)
  let ?w1 = "snd (detect_players_task_body env v w)"
  have body: "detect_players_task_body env v w = (Inl e, ?w1)"
    using assms(1) detect_players_task_delay by (auto dest: fst_eq_Inl)
  from video_task_failure [where body = "detect_players_task_body env v" and env = env and g = 151 and s = 154
      and prefix = "''Player detection failed: ''", OF body detect_players_task_body_Inl [OF body]] assms(2-5) detect_players_task_delay
  show ?thesis by (simp add: detect_players_task_def)
next
  case (analyze_ball_and_score_task_delay v)
  let ?w1 = "snd (analyze_ball_and_score_task_body env v w)"
  have body: "analyze_ball_and_score_task_body env v w = (Inl e, ?w1)"
    using assms(1) analyze_ball_and_score_task_delay by (auto dest: fst_eq_Inl)
  from video_task_failure [where body = "analyze_ball_and_score_task_body env v" and env = env and g = 185 and s = 188
      and prefix = "''Ball analysis failed: ''", OF body analyze_ball_and_score_task_body_Inl [OF body]] assms(2-5) analyze_ball_and_score_task_delay
  show ?thesis by (simp add: analyze_ball_and_score_task_def)
next
  case (detect_actions_with_mmaction_delay v m t)
  let ?w1 = "snd (detect_actions_with_mmaction_body env v m t w)"
  have body: "detect_actions_with_mmaction_body env v m t w = (Inl e, ?w1)"
    using assms(1) detect_actions_with_mmaction_delay by (auto dest: fst_eq_Inl)
  from video_task_failure [where body = "detect_actions_with_mmaction_body env v m t" and env = env and g = 287 and s = 290
      and prefix = "''Action detection failed: ''", OF body detect_actions_with_mmaction_body_Inl [OF body]] assms(2-5) detect_actions_with_mmaction_delay
  show ?thesis by (simp add: detect_actions_with_mmaction_def)
next
  case (calculate_stats_task_delay v)
  let ?w1 = "snd (calculate_stats_task_body env v w)"
  have body: "calculate_stats_task_body env v w = (Inl e, ?w1)"
    using assms(1) calculate_stats_task_delay by (auto dest: fst_eq_Inl)
  from video_task_failure [where body = "calculate_stats_task_body env v" and env = env and g = 363 and s = 366
      and prefix = "''Stats calculation failed: ''", OF body calculate_stats_task_body_Inl [OF body]] assms(2-5) calculate_stats_task_delay
  show ?thesis by (simp add: calculate_stats_task_def)
next
  case (auto_generate_highlights_task_delay v)
  with assms(2) show ?thesis by simp
next
  case (create_highlight_video_delay h)
  let ?w1 = "snd (create_highlight_video_body env h w)"
  have body: "create_highlight_video_body env h w = (Inl e, ?w1)"
    using assms(1) create_highlight_video_delay by (auto dest: fst_eq_Inl)
  from create_highlight_video_body_world [OF body] assms(5) create_highlight_video_delay
  have kept: "queue ?w1 = queue w" "highlight_row ?w1 h \<noteq> None"
    by auto
  from highlight_failed_recorded [OF kept(2), of env e] assms(2,3,4) kept(1)
    create_highlight_video_delay
  show ?thesis
    by (simp add: create_highlight_video_def
        try_except_failure [where m = "create_highlight_video_body env h", OF body])
qed

theorem failure_is_recorded_witness:
  "fst (task_body yolo_fails_env (detect_players_task_delay 1) uploaded_world)
     = Inl (Exception ''model file not found'')
   \<and> handler_lines (detect_players_task_delay 1) = Some (151, 154)
   \<and> map_of (faults yolo_fails_env) (151, []) = None
   \<and> map_of (faults yolo_fails_env) (154, []) = None
   \<and> task_row_exists (detect_players_task_delay 1) uploaded_world
   \<and> fst (run_task yolo_fails_env (detect_players_task_delay 1) uploaded_world)
       = Inr [(''status'', PyStr ''error''), (''message'', PyStr ''model file not found'')]
   \<and> recorded_error (detect_players_task_delay 1)
        (snd (run_task yolo_fails_env (detect_players_task_delay 1) uploaded_world))
       = Some ''Player detection failed: model file not found''
   \<and> queue (snd (run_task yolo_fails_env (detect_players_task_delay 1) uploaded_world)) = []"
proof -
  have h1: "fst (task_body yolo_fails_env (detect_players_task_delay 1) uploaded_world)
     = Inl (Exception ''model file not found'')"
    by code_simp
  have h2: "handler_lines (detect_players_task_delay 1) = Some (151, 154)"
    by simp
  have h3: "map_of (faults yolo_fails_env) (151, []) = None"
    by (simp add: yolo_fails_env_def)
  have h4: "map_of (faults yolo_fails_env) (154, []) = None"
    by (simp add: yolo_fails_env_def)
  have h5: "task_row_exists (detect_players_task_delay 1) uploaded_world"
    by code_simp
  have q: "queue uploaded_world = []"
    by (simp add: uploaded_world_def)
  from failure_is_recorded [OF h1 h2 h3 h4 h5] h1 h2 h3 h4 h5 q show ?thesis
    by (simp add: error_result_def)
qed

lemma auto_generate_failure:
  assumes "fst (task_body env (auto_generate_highlights_task_delay v) w) = Inl e"
  shows "fst (run_task env (auto_generate_highlights_task_delay v) w)
           = Inr (error_result (str_exn e))
       \<and> videos (snd (run_task env (auto_generate_highlights_task_delay v) w)) = videos w"
proof -
  let ?w1 = "snd (auto_generate_highlights_task_body env v w)"
  have body: "auto_generate_highlights_task_body env v w = (Inl e, ?w1)"
    using assms by (auto dest: fst_eq_Inl)
  from auto_generate_highlights_task_body_Inl [OF body]
  show ?thesis
    by (simp add: auto_generate_highlights_task_def return_def
        try_except_failure [where m = "auto_generate_highlights_task_body env v", OF body])
qed

text \<open>
  Claim C1 says that from every step of the pipeline the state \<^verbatim>\<open>error\<close> is reached
  when the step fails. The order of the labels on success is lemma \<open>task_body_status\<close>.
  The handler of \<^verbatim>\<open>auto_generate_highlights_task\<close> (lines 407 to 409) does not set
  the status: on a video with status \<^verbatim>\<open>highlights_created\<close>, when the first
  \<^verbatim>\<open>Highlight.objects.create\<close> raises, the task returns the error dict and the status
  stays \<^verbatim>\<open>highlights_created\<close>, with no error message in the row.
\<close>

theorem auto_generate_failure_keeps_status:
  "fst (task_body create_fails_env (auto_generate_highlights_task_delay 1) stats_done_world)
     = Inl (Exception ''NOT NULL constraint failed'')
   \<and> fst (run_task create_fails_env (auto_generate_highlights_task_delay 1) stats_done_world)
     = Inr [(''status'', PyStr ''error''), (''message'', PyStr ''NOT NULL constraint failed'')]
   \<and> map_option Video.status
        (video_row (snd (run_task create_fails_env (auto_generate_highlights_task_delay 1)
                           stats_done_world)) 1)
     = Some ''highlights_created''
   \<and> recorded_error (auto_generate_highlights_task_delay 1)
        (snd (run_task create_fails_env (auto_generate_highlights_task_delay 1) stats_done_world))
     = None"
  by code_simp

subsection \<open>The invariant of the Stats rows\<close>

lemma keepsD: "keeps P m \<Longrightarrow> P w \<Longrightarrow> P (snd (m w))"
  by (simp add: keeps_def)

lemma keeps_frame: "frame f m \<Longrightarrow> keeps (\<lambda>w. Q (f w)) m"
  by (simp add: keeps_def frame_def)

lemma keeps_bind: "keeps P m \<Longrightarrow> (\<And>a. keeps P (g a)) \<Longrightarrow> keeps P (bind_exec m g)"
  unfolding keeps_def bind_exec_def
  by (auto split: prod.splits sum.splits)

lemma keeps_return: "keeps P (return a)"
  by (simp add: keeps_def return_def)

lemma keeps_for_loop: "(\<And>i v s. keeps P (body i v s)) \<Longrightarrow> keeps P (for_loop vs i body s)"
  by (induction vs arbitrary: i s) (simp_all add: keeps_return keeps_bind)

lemma keeps_try_except: "keeps P m \<Longrightarrow> (\<And>e. keeps P (h e)) \<Longrightarrow> keeps P (try_except m h)"
  unfolding keeps_def try_except_def
  by (auto split: prod.splits sum.splits)

lemma keeps_self: "(\<And>w0. keeps P (F w0)) \<Longrightarrow> keeps P (\<lambda>w. F w w)"
  by (simp add: keeps_def)

lemma frame_self: "(\<And>w0. frame f (F w0)) \<Longrightarrow> frame f (\<lambda>w. F w w)"
  by (simp add: frame_def)

lemma frame_try_except: "frame f m \<Longrightarrow> (\<And>e. frame f (h e)) \<Longrightarrow> frame f (try_except m h)"
  unfolding frame_def try_except_def
  by (auto split: prod.splits sum.splits) (metis snd_conv)+

lemma list_all_upsert:
  "list_all P rows \<Longrightarrow> P r \<Longrightarrow> list_all P (upsert key r rows)"
  by (auto simp: upsert_def list_all_iff)

lemma Stats_save_consistent:
  "keeps (\<lambda>w. list_all stats_consistent (stats w)) (Stats_save env l i s)"
  by (auto simp: keeps_def Stats_save_def calculate_points_def bind_exec_def call_def Let_def
        stats_consistent_def
      split: option.splits intro!: list_all_upsert)

lemma Stats_objects_create_consistent:
  "keeps (\<lambda>w. list_all stats_consistent (stats w)) (Stats_objects_create env l i a b)"
  using Stats_save_consistent [of env l i]
  by (simp add: keeps_def Stats_objects_create_def bind_exec_def call_def raise_def
      split: option.splits)

lemma frame_Video_objects_get: "frame f (Video_objects_get env l i v)"
  by (simp add: frame_def Video_objects_get_def bind_exec_def call_def split: option.splits)

lemma frame_Highlight_objects_get: "frame f (Highlight_objects_get env l i v)"
  by (simp add: frame_def Highlight_objects_get_def bind_exec_def call_def split: option.splits)

lemma frame_file_path: "frame f (file_path v)"
  by (simp add: frame_def file_path_def raise_def return_def)

lemma frame_stats_Video_save: "frame stats (Video_save env l i v)"
  by (simp add: frame_def Video_save_def bind_exec_def call_def split: option.splits)

lemma frame_stats_Highlight_save: "frame stats (Highlight_save env l i v)"
  by (simp add: frame_def Highlight_save_def bind_exec_def call_def split: option.splits)

lemma frame_stats_delay: "frame stats (delay env l i c)"
  by (simp add: frame_def delay_def bind_exec_def call_def split: option.splits)

lemma frame_stats_actions_add: "frame stats (actions_add env l i h a)"
  by (simp add: frame_def actions_add_def bind_exec_def call_def split: option.splits)

lemma frame_stats_select_clips: "frame stats (select_clips env h vd acts i clips tot)"
proof (induction acts arbitrary: i clips tot)
  case Nil
  show ?case by (simp add: frame_def)
next
  case (Cons a rest)
  show ?case
    unfolding frame_def
  proof
    fix w
    show "stats (snd (select_clips env h vd (a # rest) i clips tot w)) = stats w"
      using Cons [unfolded frame_def]
        frameD [OF frame_call, of env 466 "[i]" w _ _ stats]
        frameD [OF frame_stats_actions_add, of env 471 "[i]" "Highlight.pk h" "Action.pk a"]
      by (auto simp: Let_def split: prod.splits sum.splits dest!: call_world)
  qed
qed

lemmas frame_stats_intros =
  frame_bind frame_if frame_return frame_raise frame_lift frame_call frame_for_loop
  frame_try_except frame_case_prod
  frame_Video_objects_get frame_Highlight_objects_get frame_file_path
  frame_stats_Video_save frame_stats_Highlight_save frame_stats_delay frame_stats_actions_add
  frame_stats_select_clips frame_frame_step

lemma frame_stats_video_failed: "frame stats (video_failed env g s prefix v e)"
  unfolding video_failed_def by (intro frame_stats_intros)

lemma frame_stats_process_video_task: "frame stats (process_video_task env v)"
  unfolding process_video_task_def process_video_task_body_def
  by (intro frame_stats_intros frame_stats_video_failed)
     (simp_all add: frame_stats_video_failed frame_return split: exn.splits)

lemma frame_stats_detect_players_task: "frame stats (detect_players_task env v)"
  unfolding detect_players_task_def detect_players_task_body_def
  by (intro frame_stats_intros frame_stats_video_failed frame_track_step) simp

lemma frame_stats_analyze_ball_and_score_task: "frame stats (analyze_ball_and_score_task env v)"
  unfolding analyze_ball_and_score_task_def analyze_ball_and_score_task_body_def
  by (intro frame_stats_intros frame_stats_video_failed)

lemma frame_stats_detect_actions_with_mmaction:
  "frame stats (detect_actions_with_mmaction env v m t)"
  unfolding detect_actions_with_mmaction_def detect_actions_with_mmaction_body_def
  by (intro frame_stats_intros frame_stats_video_failed frame_segment_step) simp

lemma frame_stats_highlight_type_step: "frame stats (highlight_type_step env v0 i spec u)"
  unfolding highlight_type_step_def
  by (intro frame_stats_intros frame_Highlight_objects_create) simp

lemma frame_stats_auto_generate_highlights_task:
  "frame stats (auto_generate_highlights_task env v)"
  unfolding auto_generate_highlights_task_def auto_generate_highlights_task_body_def
  by (intro frame_stats_intros frame_stats_highlight_type_step)

lemma frame_stats_write_highlight: "frame stats (write_highlight env h hid clips tot)"
  unfolding write_highlight_def by (intro frame_stats_intros)

lemma frame_stats_create_highlight_video: "frame stats (create_highlight_video env h)"
proof -
  have tail: "frame stats
     (bind_exec (select_clips env hl (clip_duration env) cands 0 [] 0) (\<lambda>selected.
      bind_exec (write_highlight env hl h (fst selected) (snd selected)) (\<lambda>_.
      bind_exec (call env 495 []) (\<lambda>_.
      return [(''status'', PyStr ''completed''), (''duration'', PyFloat (snd selected))]))))"
    for hl cands
    by (intro frame_stats_intros frame_stats_write_highlight)
  have body: "frame stats (create_highlight_video_body env h)"
    unfolding create_highlight_video_body_def
    apply (intro frame_bind frame_if frame_return frame_call frame_Video_objects_get
        frame_Highlight_objects_get frame_file_path)
    apply (simp add: frame_def tail [unfolded frame_def])
    done
  show ?thesis
    unfolding create_highlight_video_def
    by (intro frame_try_except body frame_stats_intros)
qed

lemma keeps_call: "keeps P (call env l i)"
  by (simp add: keeps_def call_def split: option.splits)

lemma keeps_player_step: "keeps (\<lambda>w. list_all stats_consistent (stats w)) (player_step env video0 i p u)"
proof -
  have tail: "keeps (\<lambda>w. list_all stats_consistent (stats w)) (\<lambda>w. bind_exec (Stats_save env 348 [i] (g w)) (\<lambda>_. return ()) w)" for g
    by (rule keeps_self [where F = "\<lambda>w0. bind_exec (Stats_save env 348 [i] (g w0)) (\<lambda>_. return ())"])
       (intro keeps_bind Stats_save_consistent keeps_return)
  show ?thesis
    unfolding player_step_def Let_def
    by (intro keeps_bind Stats_objects_create_consistent keeps_call tail)
qed

lemma keeps_video_failed: "keeps (\<lambda>w. list_all stats_consistent (stats w)) (video_failed env g s prefix v e)"
  by (rule keeps_frame [OF frame_stats_video_failed])

lemma keeps_calculate_stats_task: "keeps (\<lambda>w. list_all stats_consistent (stats w)) (calculate_stats_task env v)"
proof -
  have tail: "keeps (\<lambda>w. list_all stats_consistent (stats w)) (bind_exec (for_loop ps 0 (player_step env video0) ()) (\<lambda>_.
       bind_exec (Video_save env 352 [] (video0\<lparr>Video.status := ''highlights_created''\<rparr>)) (\<lambda>_.
       bind_exec (delay env 357 [] (auto_generate_highlights_task_delay (Video.pk video0))) (\<lambda>_.
       return r))))" for ps video0 r
    by (intro keeps_bind keeps_for_loop keeps_player_step keeps_return
        keeps_frame [OF frame_stats_Video_save] keeps_frame [OF frame_stats_delay])
  have body: "keeps (\<lambda>w. list_all stats_consistent (stats w)) (calculate_stats_task_body env v)"
    unfolding calculate_stats_task_body_def Let_def
    apply (intro keeps_bind keeps_call keeps_frame [OF frame_Video_objects_get])
    apply (simp add: keeps_def tail [unfolded keeps_def])
    done
  show ?thesis
    unfolding calculate_stats_task_def
    by (intro keeps_try_except body keeps_video_failed)
qed

lemma keeps_run_task: "keeps (\<lambda>w. list_all stats_consistent (stats w)) (run_task env c)"
  by (cases c)
     (simp_all add: keeps_calculate_stats_task
        keeps_frame [OF frame_stats_process_video_task]
        keeps_frame [OF frame_stats_detect_players_task]
        keeps_frame [OF frame_stats_analyze_ball_and_score_task]
        keeps_frame [OF frame_stats_detect_actions_with_mmaction]
        keeps_frame [OF frame_stats_auto_generate_highlights_task]
        keeps_frame [OF frame_stats_create_highlight_video])

lemma find_upsert_self: "find (\<lambda>r. key r = key s) (upsert key s rows) = Some s"
  by (simp add: find_upsert_same)

lemma Stats_save_result:
  "case Stats_save env line idx self w of
     (Inl e, w') \<Rightarrow> stats w' = stats w
   | (Inr saved, w') \<Rightarrow>
       saved = self\<lparr>points := 2 * fgm_2pt self + 3 * fgm_3pt self + ftm self,
                     rebounds := offensive_rebounds self + defensive_rebounds self\<rparr>
       \<and> find (\<lambda>r. Stats.pk r = Stats.pk self) (stats w') = Some saved"
  by (simp add: Stats_save_def calculate_points_def bind_exec_def call_def Let_def
        find_upsert_same
      split: option.splits)

text \<open>
  Claim C8. Every persisted Stats row satisfies
  \<^verbatim>\<open>points = 2*fgm_2pt + 3*fgm_3pt + ftm\<close> and
  \<^verbatim>\<open>rebounds = offensive_rebounds + defensive_rebounds\<close>. \<^verbatim>\<open>Stats.save\<close>
  recomputes both fields before writing, whatever values they held: the row it writes,
  found under the primary key of the object afterwards, is the object with the two
  fields overwritten by the recomputed values, and when the write fails the table is as
  it was. So from a table whose rows all satisfy the two equations, every save of any
  object, and every task of the pipeline whether it succeeds or fails, leads to a table
  whose rows all satisfy them. Every write of a Stats row in the sources goes through
  \<^verbatim>\<open>Stats.save\<close>: \<^verbatim>\<open>Stats.objects.create\<close> and \<^verbatim>\<open>stats.save()\<close> in
  \<^verbatim>\<open>calculate_stats_task\<close>, and the serializers and the admin, which save
  the object.
\<close>

theorem stats_rows_consistent:
  assumes "list_all stats_consistent (stats w)"
  shows "(case Stats_save env line idx self w of
            (Inl e, w') \<Rightarrow> stats w' = stats w
          | (Inr saved, w') \<Rightarrow>
              saved = self\<lparr>points := 2 * fgm_2pt self + 3 * fgm_3pt self + ftm self,
                            rebounds := offensive_rebounds self + defensive_rebounds self\<rparr>
              \<and> find (\<lambda>r. Stats.pk r = Stats.pk self) (stats w') = Some saved)
       \<and> list_all stats_consistent (stats (snd (Stats_save env line idx self w)))
       \<and> list_all stats_consistent (stats (snd (run_task env c w)))"
  using Stats_save_result [where env = env and line = line and idx = idx and self = self
        and w = w]
    keepsD [OF Stats_save_consistent [of env line idx self] assms]
    keepsD [OF keeps_run_task [of env c] assms]
  by (simp del: run_task.simps)

theorem stats_rows_consistent_witness:
  "list_all stats_consistent (stats actions_done_world)
   \<and> Stats_save example_env 348 [0] client_stats actions_done_world
       = (Inr (client_stats\<lparr>points := 7, rebounds := 3\<rparr>),
          actions_done_world\<lparr>stats := [client_stats\<lparr>points := 7, rebounds := 3\<rparr>]\<rparr>)
   \<and> list_all stats_consistent
        (stats (snd (Stats_save example_env 348 [0] client_stats actions_done_world)))
   \<and> map (\<lambda>s. (fgm_2pt s, fgm_3pt s, ftm s, points s, offensive_rebounds s, rebounds s))
        (stats (snd (run_task example_env (calculate_stats_task_delay 1) actions_done_world)))
       = [(1, 1, 0, 5, 1, 1)]
   \<and> list_all stats_consistent
        (stats (snd (run_task example_env (calculate_stats_task_delay 1) actions_done_world)))"
proof -
  have h: "list_all stats_consistent (stats actions_done_world)"
    by (simp add: actions_done_world_def)
  have s: "Stats_save example_env 348 [0] client_stats actions_done_world
       = (Inr (client_stats\<lparr>points := 7, rebounds := 3\<rparr>),
          actions_done_world\<lparr>stats := [client_stats\<lparr>points := 7, rebounds := 3\<rparr>]\<rparr>)"
    by code_simp
  have r: "map (\<lambda>s. (fgm_2pt s, fgm_3pt s, ftm s, points s, offensive_rebounds s, rebounds s))
        (stats (snd (run_task example_env (calculate_stats_task_delay 1) actions_done_world)))
       = [(1, 1, 0, 5, 1, 1)]"
    by code_simp
  note t = stats_rows_consistent [where w = actions_done_world and env = example_env
        and line = 348 and idx = "[0]" and self = client_stats
        and c = "calculate_stats_task_delay 1", OF h]
  show ?thesis
    by (intro conjI h s r conjunct1 [OF conjunct2 [OF t]] conjunct2 [OF conjunct2 [OF t]])
qed

end
